theory Spec2Isabelle
  imports Main "HOL-Library.AList" "HOL-Library.Char_ord" "HOL-Library.List_Lexorder"
begin

section \<open>The Python and pandas operations used by prepare_visual_metadata.py\<close>

text \<open>
  A Python \<open>str\<close> is modelled as a \<open>string\<close>, one \<open>char\<close> per code point, which covers the
  code points below 256. Strings are ordered as Python orders them: lexicographically by
  code point, a proper prefix first.
\<close>

datatype platform = Posix | Windows

text \<open>\<open>os.sep\<close>: the slash on POSIX systems, the backslash (code point 0x5C) on Windows.\<close>

definition os_sep :: "platform \<Rightarrow> string" where
  "os_sep p = (case p of Posix \<Rightarrow> ''/'' | Windows \<Rightarrow> [CHR 0x5C])"

text \<open>\<open>os.path.join(a, b)\<close> for a relative \<open>b\<close> and an \<open>a\<close> that does not end in a separator.\<close>

definition os_path_join :: "platform \<Rightarrow> string \<Rightarrow> string \<Rightarrow> string" where
  "os_path_join p a b = a @ os_sep p @ b"

datatype py_error =
    FileNotFoundError string
  | ValueError
  | KeyError string
  | JSONDecodeError

text \<open>\<open>str.isspace\<close> on one character, for the code points below 256.\<close>

definition isspace :: "char \<Rightarrow> bool" where
  "isspace c = (c \<in> set [CHR 0x09, CHR 0x0A, CHR 0x0B, CHR 0x0C, CHR 0x0D,
      CHR 0x1C, CHR 0x1D, CHR 0x1E, CHR 0x1F, CHR 0x20, CHR 0x85, CHR 0xA0])"

text \<open>\<open>s.strip()\<close>\<close>

definition str_strip :: "string \<Rightarrow> string" where
  "str_strip s = rev (dropWhile isspace (rev (dropWhile isspace s)))"

text \<open>\<open>s.split()\<close>: the maximal runs of non-whitespace characters, in order.\<close>

fun split_ws :: "string \<Rightarrow> string \<Rightarrow> string list" where
  "split_ws cur [] = (if cur = [] then [] else [rev cur])"
| "split_ws cur (c # cs) =
     (if isspace c then (if cur = [] then split_ws [] cs else rev cur # split_ws [] cs)
      else split_ws (c # cur) cs)"

definition str_split :: "string \<Rightarrow> string list" where
  "str_split s = split_ws [] s"

text \<open>\<open>sep.join(parts)\<close>\<close>

fun str_join :: "string \<Rightarrow> string list \<Rightarrow> string" where
  "str_join sep [] = []"
| "str_join sep [x] = x"
| "str_join sep (x # y # ys) = x @ sep @ str_join sep (y # ys)"

text \<open>\<open>s.split(d, 1)\<close> for a one-character delimiter: one part when \<open>d\<close> does not occur,
  otherwise the text before the first \<open>d\<close> and the text after it.\<close>

definition str_split1 :: "char \<Rightarrow> string \<Rightarrow> string list" where
  "str_split1 d s =
     (if d \<in> set s then [takeWhile (\<lambda>c. c \<noteq> d) s, tl (dropWhile (\<lambda>c. c \<noteq> d) s)] else [s])"

text \<open>\<open>s.replace('/', repl)\<close>\<close>

definition str_replace_slash :: "string \<Rightarrow> string \<Rightarrow> string" where
  "str_replace_slash repl s = concat (map (\<lambda>c. if c = CHR ''/'' then repl else [c]) s)"

text \<open>\<open>p in s\<close> on strings: \<open>p\<close> occurs in \<open>s\<close> as a contiguous substring.\<close>

fun starts_with :: "string \<Rightarrow> string \<Rightarrow> bool" where
  "starts_with [] s = True"
| "starts_with (p # ps) [] = False"
| "starts_with (p # ps) (c # cs) = (p = c \<and> starts_with ps cs)"

fun str_contains :: "string \<Rightarrow> string \<Rightarrow> bool" where
  "str_contains p [] = (p = [])"
| "str_contains p (c # cs) = (starts_with p (c # cs) \<or> str_contains p cs)"

text \<open>
  \<open>int(s)\<close> in base 10. The whitespace it ignores around the number is not that of
  \<open>str.strip\<close>: the four separators U+001C to U+001F are kept, and with them the text
  is no integer. One sign is allowed, the digits may be separated by single underscores,
  and a text of more than 4300 digits, the interpreter's default limit, is refused.
  \<open>None\<close> stands for the \<open>ValueError\<close>.
\<close>

definition int_isspace :: "char \<Rightarrow> bool" where
  "int_isspace c = (c \<in> set [CHR 0x09, CHR 0x0A, CHR 0x0B, CHR 0x0C, CHR 0x0D,
      CHR 0x20, CHR 0x85, CHR 0xA0])"

definition int_strip :: "string \<Rightarrow> string" where
  "int_strip s = rev (dropWhile int_isspace (rev (dropWhile int_isspace s)))"

definition max_str_digits :: nat where
  "max_str_digits = 4300"

definition isdigit :: "char \<Rightarrow> bool" where
  "isdigit c = (CHR ''0'' \<le> c \<and> c \<le> CHR ''9'')"

definition digit_val :: "char \<Rightarrow> nat" where
  "digit_val c = of_char c - 48"

fun parse_digits :: "nat \<Rightarrow> string \<Rightarrow> nat option" where
  "parse_digits acc [] = Some acc"
| "parse_digits acc [c] = (if isdigit c then Some (10 * acc + digit_val c) else None)"
| "parse_digits acc (c # d # ds) =
     (if isdigit c then parse_digits (10 * acc + digit_val c) (d # ds)
      else if c = CHR ''_'' \<and> isdigit d then parse_digits (10 * acc + digit_val d) ds
      else None)"

definition parse_unsigned :: "string \<Rightarrow> nat option" where
  "parse_unsigned s =
     (case s of [] \<Rightarrow> None
      | c # cs \<Rightarrow>
          if max_str_digits < length (filter isdigit s) then None
          else if isdigit c then parse_digits (digit_val c) cs
          else None)"

definition py_int :: "string \<Rightarrow> int option" where
  "py_int s =
     (case int_strip s of [] \<Rightarrow> None
      | c # cs \<Rightarrow>
          if c = CHR ''-'' then map_option (\<lambda>n. - int n) (parse_unsigned cs)
          else if c = CHR ''+'' then map_option int (parse_unsigned cs)
          else map_option int (parse_unsigned (c # cs)))"

text \<open>
  A \<open>dict\<close> is an association list in insertion order with distinct keys:
  \<open>d[k] = v\<close> is \<^const>\<open>AList.update\<close> (an existing key keeps its place, a new one goes
  last), \<open>d.get(k)\<close> is \<^const>\<open>map_of\<close>, \<open>len(d)\<close> is \<^const>\<open>length\<close>, \<open>d.items()\<close> is the list.
\<close>

type_synonym ('k, 'v) dict = "('k \<times> 'v) list"

text \<open>\<open>k in d\<close>\<close>

definition dict_contains :: "('k, 'v) dict \<Rightarrow> 'k \<Rightarrow> bool" where
  "dict_contains d k = (k \<in> fst ` set d)"

text \<open>\<open>d[k]\<close> on a \<open>dict\<close> keyed by strings: a missing key raises \<open>KeyError\<close>.\<close>

definition dict_getitem :: "(string, 'v) dict \<Rightarrow> string \<Rightarrow> py_error + 'v" where
  "dict_getitem d k = (case map_of d k of None \<Rightarrow> Inl (KeyError k) | Some v \<Rightarrow> Inr v)"

text \<open>
  \<open>Series.map(d)\<close> with a \<open>dict\<close>: each value is looked up, a value that is not a key
  becomes null (NaN), and a null stays null. \<open>None\<close> is the null.
\<close>

definition series_map :: "('k, 'v) dict \<Rightarrow> 'k option list \<Rightarrow> 'v option list" where
  "series_map d col = map (\<lambda>x. case x of None \<Rightarrow> None | Some k \<Rightarrow> map_of d k) col"

text \<open>
  \<open>Series.astype('category').cat.codes\<close> on a column of strings and nulls: the categories
  are the distinct non-null values in ascending order, the code of a value is its
  position among the categories, and the code of a null is -1.
\<close>

definition categories :: "string option list \<Rightarrow> string list" where
  "categories col = sort (remdups (concat (map (\<lambda>x. case x of None \<Rightarrow> [] | Some v \<Rightarrow> [v]) col)))"

fun position :: "'a list \<Rightarrow> 'a \<Rightarrow> nat" where
  "position [] v = 0"
| "position (x # xs) v = (if x = v then 0 else Suc (position xs v))"

definition cat_codes :: "string option list \<Rightarrow> int list" where
  "cat_codes col =
     (let cats = categories col
      in map (\<lambda>x. case x of None \<Rightarrow> - 1 | Some v \<Rightarrow> int (position cats v)) col)"


text \<open>
  What \<open>open\<close> followed by \<open>json.load\<close> finds at the path of a trait file: no file, a file
  that is not JSON, or a JSON object, given by its members in document order. The trait
  values are strings. \<open>json.load\<close> builds the \<open>dict\<close> by inserting the members one by one, so
  a key written twice keeps its first place and its last value.
\<close>

datatype trait_file = Missing | Malformed | JsonObject "(string \<times> string) list"

definition json_load :: "string \<Rightarrow> trait_file \<Rightarrow> py_error + (string, string) dict" where
  "json_load filename file =
     (case file of
        Missing \<Rightarrow> Inl (FileNotFoundError filename)
      | Malformed \<Rightarrow> Inl JSONDecodeError
      | JsonObject members \<Rightarrow> Inr (fold (\<lambda>(k, v) d. AList.update k v d) members []))"

section \<open>prepare_visual_metadata.py\<close>

subsection \<open>Configuration\<close>

definition TRAIN_LIST_FILE :: "platform \<Rightarrow> string" where
  "TRAIN_LIST_FILE p = os_path_join p ''list'' ''train.txt''"

definition SPECIES_LIST_FILE :: "platform \<Rightarrow> string" where
  "SPECIES_LIST_FILE p = os_path_join p ''list'' ''species_list.txt''"

definition LEAF_SHAPE_MAPPING_FILE :: string where
  "LEAF_SHAPE_MAPPING_FILE = ''species_to_leaf_shape.json''"

definition LEAF_ARR_MAPPING_FILE :: string where
  "LEAF_ARR_MAPPING_FILE = ''species_to_leaf_arrangement.json''"

subsection \<open>Step 1: the species list\<close>

text \<open>\<open>" ".join(formal_name.split()[:2])\<close>\<close>

definition clean_name_of :: "string \<Rightarrow> string" where
  "clean_name_of formal_name = str_join '' '' (take 2 (str_split formal_name))"

text \<open>
  The body of the loop for one non-blank line: the tuple assignment raises \<open>ValueError\<close>
  unless the split gives two parts, and so does \<open>int\<close> on a text that is no integer.
  The result is the class id, the clean name and the formal name.
\<close>

definition parse_line :: "string \<Rightarrow> py_error + (int \<times> string \<times> string)" where
  "parse_line line =
     (case str_split1 CHR '';'' (str_strip line) of
        [classid_str, formal_name_full] \<Rightarrow>
          (let formal_name = str_strip formal_name_full;
               clean_name = clean_name_of formal_name
           in case py_int classid_str of
                None \<Rightarrow> Inl ValueError
              | Some cid \<Rightarrow> Inr (cid, clean_name, formal_name))
      | _ \<Rightarrow> Inl ValueError)"

text \<open>The loop over the lines of the species list, on the two dictionaries it fills.\<close>

fun species_loop ::
  "string list \<Rightarrow> (int, string) dict \<times> (string, string) dict \<Rightarrow>
   py_error + ((int, string) dict \<times> (string, string) dict)" where
  "species_loop [] maps = Inr maps"
| "species_loop (line # rest) (classid_to_formal_name, clean_name_to_formal_name) =
     (if str_strip line = [] then
        species_loop rest (classid_to_formal_name, clean_name_to_formal_name)
      else case parse_line line of
          Inl e \<Rightarrow> Inl e
        | Inr (cid, clean_name, formal_name) \<Rightarrow>
            species_loop rest
              (AList.update cid formal_name classid_to_formal_name,
               AList.update clean_name formal_name clean_name_to_formal_name))"

subsection \<open>Step 5: the trait dictionaries\<close>

text \<open>
  The dictionary comprehension
  \<open>{clean_name_to_formal_name[clean_key]: value for clean_key, value in m.items()
     if clean_key in clean_name_to_formal_name}\<close>, on the dictionary built so far.
\<close>

fun remap_keys ::
  "(string, string) dict \<Rightarrow> (string, string) dict \<Rightarrow> (string, string) dict \<Rightarrow>
   py_error + (string, string) dict" where
  "remap_keys clean_name_to_formal_name [] acc = Inr acc"
| "remap_keys clean_name_to_formal_name ((clean_key, val) # items) acc =
     (if dict_contains clean_name_to_formal_name clean_key then
        (case dict_getitem clean_name_to_formal_name clean_key of
           Inl e \<Rightarrow> Inl e
         | Inr formal_name \<Rightarrow>
             remap_keys clean_name_to_formal_name items (AList.update formal_name val acc))
      else remap_keys clean_name_to_formal_name items acc)"

text \<open>The body of the \<open>try\<close> block: the two new columns, or the exception raised.\<close>

definition load_descriptors ::
  "trait_file \<Rightarrow> trait_file \<Rightarrow> (string, string) dict \<Rightarrow> string option list \<Rightarrow>
   py_error + (string option list \<times> string option list)" where
  "load_descriptors shape_file arr_file clean_name_to_formal_name df_species_name =
     (case json_load LEAF_SHAPE_MAPPING_FILE shape_file of
        Inl e \<Rightarrow> Inl e
      | Inr shape_map_clean_keys \<Rightarrow>
     (case json_load LEAF_ARR_MAPPING_FILE arr_file of
        Inl e \<Rightarrow> Inl e
      | Inr arr_map_clean_keys \<Rightarrow>
     (case remap_keys clean_name_to_formal_name shape_map_clean_keys [] of
        Inl e \<Rightarrow> Inl e
      | Inr shape_map_formal_keys \<Rightarrow>
     (case remap_keys clean_name_to_formal_name arr_map_clean_keys [] of
        Inl e \<Rightarrow> Inl e
      | Inr arr_map_formal_keys \<Rightarrow>
          Inr (series_map shape_map_formal_keys df_species_name,
               series_map arr_map_formal_keys df_species_name)))))"

text \<open>The messages of the two handlers. The second shows the key as \<open>str\<close> of a
  \<open>KeyError\<close> does, between quotes of its own.\<close>

definition descriptor_not_found_message :: "string \<Rightarrow> string" where
  "descriptor_not_found_message filename =
     CHR 0x0A # ''ERROR: A descriptor file was not found: '' @ filename"

definition key_mismatch_message :: "string \<Rightarrow> string" where
  "key_mismatch_message k =
     CHR 0x0A # ''ERROR: A key mismatch occurred. The clean name '' @
     [CHR 0x27, CHR 0x27] @ k @ [CHR 0x27, CHR 0x27] @
     '' from a JSON file could not be found in the official species list.''"

subsection \<open>The whole run\<close>

text \<open>
  The files the script reads: the species list as the lines the file iterator yields
  (\<open>None\<close> when the file does not exist), the training list as the records
  \<open>pd.read_csv\<close> loads (a path that is a string and a class id that is an integer
  each), and the two trait files.
\<close>

record input =
  os_platform :: platform
  species_list_file :: "string list option"
  train_list_file :: "(string \<times> int) list option"
  leaf_shape_file :: trait_file
  leaf_arr_file :: trait_file

text \<open>The data frame, column by column; every column has one value per row.\<close>

record table =
  filepath :: "string list"
  classid :: "int list"
  species_name :: "string option list"
  domain :: "string list"
  leaf_shape :: "string option list"
  leaf_arrangement :: "string option list"
  species_label :: "int list"
  leaf_shape_label :: "int list"
  leaf_arrangement_label :: "int list"

text \<open>
  How a run ends: an exception leaves the function and ends the process, or a handler
  prints its message and returns before anything is written, or \<open>to_csv\<close> writes the
  data frame to the output file.
\<close>

datatype outcome = Raised py_error | Aborted string | Saved table

definition domain_of :: "string \<Rightarrow> string" where
  "domain_of path = (if str_contains ''herbarium'' path then ''herbarium'' else ''field'')"

definition load_and_map_data :: "input \<Rightarrow> outcome" where
  "load_and_map_data inp =
     (case species_list_file inp of
        None \<Rightarrow> Raised (FileNotFoundError (SPECIES_LIST_FILE (os_platform inp)))
      | Some lines \<Rightarrow>
     (case species_loop lines ([], []) of
        Inl e \<Rightarrow> Raised e
      | Inr (classid_to_formal_name, clean_name_to_formal_name) \<Rightarrow>
     (case train_list_file inp of
        None \<Rightarrow> Raised (FileNotFoundError (TRAIN_LIST_FILE (os_platform inp)))
      | Some records \<Rightarrow>
          (let df_classid = map snd records;
               df_species_name = series_map classid_to_formal_name (map Some df_classid);
               df_filepath = map (str_replace_slash (os_sep (os_platform inp))) (map fst records);
               df_domain = map domain_of df_filepath
           in case load_descriptors (leaf_shape_file inp) (leaf_arr_file inp)
                     clean_name_to_formal_name df_species_name of
                Inl (FileNotFoundError filename) \<Rightarrow>
                  Aborted (descriptor_not_found_message filename)
              | Inl (KeyError k) \<Rightarrow> Aborted (key_mismatch_message k)
              | Inl e \<Rightarrow> Raised e
              | Inr (df_leaf_shape, df_leaf_arrangement) \<Rightarrow>
                  Saved \<lparr> filepath = df_filepath,
                          classid = df_classid,
                          species_name = df_species_name,
                          domain = df_domain,
                          leaf_shape = df_leaf_shape,
                          leaf_arrangement = df_leaf_arrangement,
                          species_label = cat_codes df_species_name,
                          leaf_shape_label = cat_codes df_leaf_shape,
                          leaf_arrangement_label = cat_codes df_leaf_arrangement \<rparr>))))"

subsection \<open>A sample run\<close>

text \<open>
  A species list of two species with a blank line between them, three training records
  (the last with a class id that is not in the species list), and trait files that cover
  the species in part and name one species that is not in the list.
\<close>

definition example_input :: input where
  "example_input =
     \<lparr> os_platform = Windows,
       species_list_file =
         Some [''105951;Acer rubrum L.\<newline>'', ''\<newline>'', ''3;Quercus alba L.''],
       train_list_file =
         Some [(''images/herbarium/a.jpg'', 105951), (''images/photo/b.jpg'', 3),
               (''images/photo/c.jpg'', 9)],
       leaf_shape_file =
         JsonObject [(''Quercus alba'', ''lobed''), (''Acer rubrum'', ''palmate''),
                     (''Rosa canina'', ''pinnate'')],
       leaf_arr_file = JsonObject [(''Acer rubrum'', ''opposite'')] \<rparr>"

definition example_output :: table where
  "example_output =
     \<lparr> filepath =
         [''images'' @ [CHR 0x5C] @ ''herbarium'' @ [CHR 0x5C] @ ''a.jpg'',
          ''images'' @ [CHR 0x5C] @ ''photo'' @ [CHR 0x5C] @ ''b.jpg'',
          ''images'' @ [CHR 0x5C] @ ''photo'' @ [CHR 0x5C] @ ''c.jpg''],
       classid = [105951, 3, 9],
       species_name = [Some ''Acer rubrum L.'', Some ''Quercus alba L.'', None],
       domain = [''herbarium'', ''field'', ''field''],
       leaf_shape = [Some ''palmate'', Some ''lobed'', None],
       leaf_arrangement = [Some ''opposite'', None, None],
       species_label = [0, 1, - 1],
       leaf_shape_label = [1, 0, - 1],
       leaf_arrangement_label = [0, - 1, - 1] \<rparr>"

subsection \<open>Reading a line of the species list\<close>

text \<open>
  The vocabulary of the statements about the species list. A line is blank when nothing
  is left of it after stripping; a non-blank line is valid when it has a semicolon with an
  integer before it. The class id, the formal name and the clean name of a line are what
  the loop body computes from it.
\<close>

definition nonblank :: "string \<Rightarrow> bool" where
  "nonblank line = (str_strip line \<noteq> [])"

definition line_classid :: "string \<Rightarrow> int option" where
  "line_classid line = py_int (takeWhile (\<lambda>c. c \<noteq> CHR '';'') (str_strip line))"

definition valid_line :: "string \<Rightarrow> bool" where
  "valid_line line = (CHR '';'' \<in> set (str_strip line) \<and> line_classid line \<noteq> None)"

definition line_formal_name :: "string \<Rightarrow> string" where
  "line_formal_name line = str_strip (tl (dropWhile (\<lambda>c. c \<noteq> CHR '';'') (str_strip line)))"

definition line_clean_name :: "string \<Rightarrow> string" where
  "line_clean_name line = clean_name_of (line_formal_name line)"

subsection \<open>Label codes, as the specification words them\<close>

text \<open>
  The code of a value by lexicographic order: a null has the code -1, and a non-null
  value has as its code the number of distinct non-null values of the column that come
  before it in the order of strings.
\<close>

definition lexicographic_code :: "string option list \<Rightarrow> string option \<Rightarrow> int" where
  "lexicographic_code col x =
     (case x of
        None \<Rightarrow> - 1
      | Some v \<Rightarrow> int (card {w \<in> set (List.map_filter (\<lambda>y. y) col). w < v}))"

section \<open>Properties of the string operations\<close>

lemma starts_with_iff: "starts_with p s \<longleftrightarrow> (\<exists>v. s = p @ v)"
  by (induction p s rule: starts_with.induct) auto

lemma str_contains_iff: "str_contains p s \<longleftrightarrow> (\<exists>u v. s = u @ p @ v)"
proof (induction s)
  case Nil
  then show ?case by simp
next
  case (Cons c cs)
  have "(\<exists>u v. c # cs = u @ p @ v) \<longleftrightarrow> (\<exists>v. c # cs = p @ v) \<or> (\<exists>u v. cs = u @ p @ v)"
  proof
    assume "\<exists>u v. c # cs = u @ p @ v"
    then obtain u v where uv: "c # cs = u @ p @ v" by blast
    show "(\<exists>v. c # cs = p @ v) \<or> (\<exists>u v. cs = u @ p @ v)"
    proof (cases u)
      case Nil
      with uv show ?thesis by simp
    next
      case (Cons a u')
      with uv have "cs = u' @ p @ v" by simp
      then show ?thesis by blast
    qed
  next
    assume "(\<exists>v. c # cs = p @ v) \<or> (\<exists>u v. cs = u @ p @ v)"
    then show "\<exists>u v. c # cs = u @ p @ v"
    proof
      assume "\<exists>v. c # cs = p @ v"
      then obtain v where "c # cs = [] @ p @ v" by auto
      then show ?thesis by blast
    next
      assume "\<exists>u v. cs = u @ p @ v"
      then obtain u v where "c # cs = (c # u) @ p @ v" by auto
      then show ?thesis by blast
    qed
  qed
  with Cons show ?case by (simp add: starts_with_iff)
qed

lemma replace_single: "str_replace_slash [d] s = map (\<lambda>c. if c = CHR ''/'' then d else c) s"
  by (induction s) (auto simp: str_replace_slash_def)

lemma map_fixed_eq:
  assumes "map f xs = h" and "\<And>c. f c \<in> set h \<Longrightarrow> f c = c"
  shows "xs = h"
proof -
  have "map f xs = xs"
  proof (rule map_idI)
    fix x assume "x \<in> set xs"
    then have "f x \<in> set h" using assms(1) by auto
    then show "f x = x" by (rule assms(2))
  qed
  with assms(1) show ?thesis by simp
qed

lemma substring_map_iff:
  assumes fixd: "\<And>c. f c \<in> set h \<Longrightarrow> f c = c" and img: "map f h = h"
  shows "(\<exists>u v. map f s = u @ h @ v) \<longleftrightarrow> (\<exists>u v. s = u @ h @ v)"
proof
  assume "\<exists>u v. map f s = u @ h @ v"
  then obtain u v where "map f s = u @ h @ v" by blast
  then obtain u' w where s: "s = u' @ w" and w: "h @ v = map f w"
    unfolding map_eq_append_conv by blast
  from w have "map f w = h @ v" by simp
  then obtain h' v' where w': "w = h' @ v'" and "h = map f h'"
    unfolding map_eq_append_conv by blast
  then have h': "map f h' = h" by simp
  from h' fixd have "h' = h" by (rule map_fixed_eq)
  with s w' show "\<exists>u v. s = u @ h @ v" by blast
next
  assume "\<exists>u v. s = u @ h @ v"
  then obtain u v where "s = u @ h @ v" by blast
  then have "map f s = map f u @ h @ map f v" by (simp add: img)
  then show "\<exists>u v. map f s = u @ h @ v" by blast
qed

lemma herbarium_after_replace:
  "(\<exists>u v. str_replace_slash (os_sep p) s = u @ ''herbarium'' @ v) \<longleftrightarrow>
   (\<exists>u v. s = u @ ''herbarium'' @ v)"
proof -
  obtain d where d: "os_sep p = [d]" and dn: "d \<notin> set ''herbarium''"
    by (cases p) (auto simp: os_sep_def)
  have "(\<exists>u v. map (\<lambda>c. if c = CHR ''/'' then d else c) s = u @ ''herbarium'' @ v) \<longleftrightarrow>
        (\<exists>u v. s = u @ ''herbarium'' @ v)"
  proof (rule substring_map_iff)
    fix c assume "(if c = CHR ''/'' then d else c) \<in> set ''herbarium''"
    with dn show "(if c = CHR ''/'' then d else c) = c" by (auto split: if_splits)
  next
    show "map (\<lambda>c. if c = CHR ''/'' then d else c) ''herbarium'' = ''herbarium''" by simp
  qed
  then show ?thesis by (simp add: d replace_single)
qed

lemma domain_of_iff: "domain_of path = ''herbarium'' \<longleftrightarrow> (\<exists>u v. path = u @ ''herbarium'' @ v)"
  by (simp add: domain_of_def str_contains_iff)

lemma domain_of_cases: "domain_of path \<noteq> ''herbarium'' \<Longrightarrow> domain_of path = ''field''"
  by (simp add: domain_of_def split: if_splits)


lemma run_Saved:
  assumes "load_and_map_data inp = Saved df"
  obtains lines cm nm records shape arr where
    "species_list_file inp = Some lines"
    "species_loop lines ([], []) = Inr (cm, nm)"
    "train_list_file inp = Some records"
    "load_descriptors (leaf_shape_file inp) (leaf_arr_file inp) nm
       (series_map cm (map Some (map snd records))) = Inr (shape, arr)"
    "df = \<lparr> filepath = map (str_replace_slash (os_sep (os_platform inp))) (map fst records),
            classid = map snd records,
            species_name = series_map cm (map Some (map snd records)),
            domain = map domain_of (map (str_replace_slash (os_sep (os_platform inp))) (map fst records)),
            leaf_shape = shape,
            leaf_arrangement = arr,
            species_label = cat_codes (series_map cm (map Some (map snd records))),
            leaf_shape_label = cat_codes shape,
            leaf_arrangement_label = cat_codes arr \<rparr>"
  using assms unfolding load_and_map_data_def Let_def
  by (auto split: option.splits sum.splits prod.splits py_error.splits)

section \<open>The sample run, evaluated\<close>

lemmas py_defs = str_strip_def isspace_def str_split1_def str_split_def clean_name_of_def
  py_int_def int_strip_def int_isspace_def max_str_digits_def parse_unsigned_def isdigit_def
  digit_val_def parse_line_def

lemma example_line1:
  "parse_line ''105951;Acer rubrum L.\<newline>'' =
     Inr (105951, ''Acer rubrum'', ''Acer rubrum L.'')"
  by (simp add: py_defs)

lemma example_line2:
  "parse_line ''3;Quercus alba L.'' = Inr (3, ''Quercus alba'', ''Quercus alba L.'')"
  by (simp add: py_defs)

lemma example_species:
  "species_loop [''105951;Acer rubrum L.\<newline>'', ''\<newline>'', ''3;Quercus alba L.'']
     ([], []) =
     Inr ([(105951, ''Acer rubrum L.''), (3, ''Quercus alba L.'')],
          [(''Acer rubrum'', ''Acer rubrum L.''), (''Quercus alba'', ''Quercus alba L.'')])"
proof -
  have b: "str_strip ''\<newline>'' = []" "str_strip ''105951;Acer rubrum L.\<newline>'' \<noteq> []"
    "str_strip ''3;Quercus alba L.'' \<noteq> []"
    by (simp_all add: str_strip_def isspace_def)
  show ?thesis
    using example_line1 example_line2 by (simp add: b)
qed

lemma example_descriptors:
  "load_descriptors
     (JsonObject [(''Quercus alba'', ''lobed''), (''Acer rubrum'', ''palmate''),
                  (''Rosa canina'', ''pinnate'')])
     (JsonObject [(''Acer rubrum'', ''opposite'')])
     [(''Acer rubrum'', ''Acer rubrum L.''), (''Quercus alba'', ''Quercus alba L.'')]
     [Some ''Acer rubrum L.'', Some ''Quercus alba L.'', None] =
   Inr ([Some ''palmate'', Some ''lobed'', None], [Some ''opposite'', None, None])"
  by (simp add: load_descriptors_def json_load_def dict_contains_def dict_getitem_def
      series_map_def)

lemma example_codes:
  "cat_codes [Some ''Acer rubrum L.'', Some ''Quercus alba L.'', None] = [0, 1, - 1]"
  "cat_codes [Some ''palmate'', Some ''lobed'', None] = [1, 0, - 1]"
  "cat_codes [Some ''opposite'', None, None] = [0, - 1, - 1]"
  by (simp_all add: cat_codes_def categories_def)

lemma example_run: "load_and_map_data example_input = Saved example_output"
  by (simp add: load_and_map_data_def example_input_def example_output_def example_species
      example_descriptors example_codes series_map_def str_replace_slash_def os_sep_def
      domain_of_def del: species_loop.simps)

section \<open>The species list loop\<close>

lemma parse_line_valid:
  assumes "valid_line line"
  obtains cid where "line_classid line = Some cid"
    and "parse_line line = Inr (cid, line_clean_name line, line_formal_name line)"
  using assms
  by (auto simp: valid_line_def parse_line_def str_split1_def line_classid_def
      line_clean_name_def line_formal_name_def Let_def)

lemma parse_line_invalid: "\<not> valid_line line \<Longrightarrow> parse_line line = Inl ValueError"
  by (auto simp: valid_line_def parse_line_def str_split1_def line_classid_def)

lemma keys_fold_update:
  "fst ` set (fold (\<lambda>p. AList.update (kf p) (vf p)) ps d) = fst ` set d \<union> kf ` set ps"
  by (induction ps arbitrary: d) (auto simp: dom_update)

lemma distinct_fold_update:
  "distinct (map fst d) \<Longrightarrow> distinct (map fst (fold (\<lambda>p. AList.update (kf p) (vf p)) ps d))"
  by (induction ps arbitrary: d) (auto simp: distinct_update)

lemma map_of_fold_update:
  "map_of (fold (\<lambda>p. AList.update (kf p) (vf p)) ps d) =
     map_of d ++ map_of (rev (map (\<lambda>p. (kf p, vf p)) ps))"
proof (induction ps arbitrary: d)
  case Nil
  then show ?case by simp
next
  case (Cons p ps)
  show ?case
    by (rule ext) (simp add: Cons.IH update_conv' map_add_def split: option.splits)
qed

lemma length_dict: "distinct (map fst d) \<Longrightarrow> length d = card (fst ` set d)"
  by (metis distinct_card length_map set_map)

lemma length_fold_update:
  "length (fold (\<lambda>p. AList.update (kf p) (vf p)) ps []) = card (kf ` set ps)"
proof -
  have "distinct (map fst (fold (\<lambda>p. AList.update (kf p) (vf p)) ps []))"
    by (rule distinct_fold_update) simp
  then show ?thesis
    by (simp add: length_dict keys_fold_update)
qed

text \<open>What the loop leaves in the two dictionaries when every non-blank line is valid.\<close>

lemma species_loop_valid:
  assumes "\<forall>l\<in>set lines. nonblank l \<longrightarrow> valid_line l"
  shows "species_loop lines (cm, nm) =
     Inr (fold (\<lambda>l. AList.update (the (line_classid l)) (line_formal_name l))
            (filter nonblank lines) cm,
          fold (\<lambda>l. AList.update (line_clean_name l) (line_formal_name l))
            (filter nonblank lines) nm)"
  using assms
proof (induction lines arbitrary: cm nm)
  case Nil
  then show ?case by simp
next
  case (Cons line rest)
  show ?case
  proof (cases "nonblank line")
    case False
    with Cons show ?thesis by (simp add: nonblank_def)
  next
    case True
    with Cons.prems have "valid_line line" by simp
    then obtain cid where "line_classid line = Some cid"
      and "parse_line line = Inr (cid, line_clean_name line, line_formal_name line)"
      by (rule parse_line_valid)
    with True Cons show ?thesis by (simp add: nonblank_def)
  qed
qed

lemma species_loop_invalid:
  assumes "\<exists>l\<in>set lines. nonblank l \<and> \<not> valid_line l"
  shows "species_loop lines (cm, nm) = Inl ValueError"
  using assms
proof (induction lines arbitrary: cm nm)
  case Nil
  then show ?case by simp
next
  case (Cons line rest)
  show ?case
  proof (cases "nonblank line")
    case False
    with Cons show ?thesis by (simp add: nonblank_def)
  next
    case True
    show ?thesis
    proof (cases "valid_line line")
      case False
      with True show ?thesis by (simp add: nonblank_def parse_line_invalid)
    next
      case v: True
      then obtain cid where
        "parse_line line = Inr (cid, line_clean_name line, line_formal_name line)"
        by (rule parse_line_valid)
      moreover from v Cons.prems have "\<exists>l\<in>set rest. nonblank l \<and> \<not> valid_line l" by auto
      ultimately show ?thesis using True Cons.IH by (simp add: nonblank_def)
    qed
  qed
qed

section \<open>The trait dictionaries\<close>

lemma parse_line_clean_name:
  "parse_line line = Inr (cid, clean_name, formal_name) \<Longrightarrow> clean_name = clean_name_of formal_name"
  by (auto simp: parse_line_def Let_def split: list.splits option.splits)

lemma parse_line_error: "parse_line line = Inl e \<Longrightarrow> e = ValueError"
  by (auto simp: parse_line_def Let_def split: list.splits option.splits)

text \<open>Every key of the clean name dictionary is the clean name of the name stored under it.\<close>

lemma species_loop_clean_keys:
  assumes "species_loop lines (cm, nm) = Inr (cm', nm')"
    and "\<forall>ck f. map_of nm ck = Some f \<longrightarrow> ck = clean_name_of f"
  shows "\<forall>ck f. map_of nm' ck = Some f \<longrightarrow> ck = clean_name_of f"
  using assms
proof (induction lines arbitrary: cm nm)
  case Nil
  then show ?case by simp
next
  case (Cons line rest)
  show ?case
  proof (cases "str_strip line = []")
    case True
    with Cons.prems have "species_loop rest (cm, nm) = Inr (cm', nm')" by simp
    then show ?thesis using Cons.prems(2) by (rule Cons.IH)
  next
    case False
    with Cons.prems(1) obtain cid clean formal where
      p: "parse_line line = Inr (cid, clean, formal)" and
      r: "species_loop rest (AList.update cid formal cm, AList.update clean formal nm) =
            Inr (cm', nm')"
      by (auto split: sum.splits)
    from p have "clean = clean_name_of formal" by (rule parse_line_clean_name)
    with Cons.prems(2)
    have "\<forall>ck f. map_of (AList.update clean formal nm) ck = Some f \<longrightarrow> ck = clean_name_of f"
      by (simp add: update_conv')
    with r show ?thesis by (rule Cons.IH)
  qed
qed

lemma species_loop_error: "species_loop lines maps = Inl e \<Longrightarrow> e = ValueError"
proof (induction lines arbitrary: maps)
  case Nil
  then show ?case by simp
next
  case (Cons line rest)
  obtain cm nm where m: "maps = (cm, nm)" by (cases maps)
  from Cons.prems Cons.IH show ?case
    unfolding m by (auto split: if_splits sum.splits dest: parse_line_error)
qed

text \<open>The comprehension never raises: a key that passes the test is found by the lookup.\<close>

lemma remap_keys_fold:
  "remap_keys nm items acc =
     Inr (fold (\<lambda>(f, v). AList.update f v)
            (concat (map (\<lambda>(ck, v). case map_of nm ck of None \<Rightarrow> [] | Some f \<Rightarrow> [(f, v)]) items))
            acc)"
proof (induction items arbitrary: acc)
  case Nil
  then show ?case by simp
next
  case (Cons item items)
  obtain ck v where i: "item = (ck, v)" by (cases item)
  show ?case
  proof (cases "map_of nm ck")
    case None
    then have "\<not> dict_contains nm ck"
      by (simp add: dict_contains_def map_of_eq_None_iff)
    with None show ?thesis by (simp add: i Cons.IH)
  next
    case (Some f)
    then have "dict_contains nm ck"
      by (metis dict_contains_def map_of_eq_None_iff option.distinct(1))
    with Some show ?thesis by (simp add: i Cons.IH dict_getitem_def)
  qed
qed

lemma json_load_distinct: "json_load filename tf = Inr d \<Longrightarrow> distinct (map fst d)"
proof (cases tf)
  case (JsonObject members)
  assume "json_load filename tf = Inr d"
  with JsonObject have d: "d = fold (\<lambda>p. AList.update (fst p) (snd p)) members []"
    by (auto simp: json_load_def case_prod_unfold)
  show ?thesis unfolding d by (rule distinct_fold_update) simp
qed (simp_all add: json_load_def)

lemma map_of_unique:
  assumes "(k, v) \<in> set xs" and "\<And>v'. (k, v') \<in> set xs \<Longrightarrow> v' = v"
  shows "map_of xs k = Some v"
proof -
  from assms(1) obtain w where w: "map_of xs k = Some w"
    using weak_map_of_SomeI by fastforce
  then have "(k, w) \<in> set xs" by (rule map_of_SomeD)
  then have "w = v" by (rule assms(2))
  with w show ?thesis by simp
qed

text \<open>
  The translated dictionary, for a source dictionary with distinct keys and a clean name
  dictionary that the species list loop has filled.
\<close>

lemma remap_keys_lookup:
  assumes r: "remap_keys nm items [] = Inr d"
    and dist: "distinct (map fst items)"
    and inv: "\<forall>ck f. map_of nm ck = Some f \<longrightarrow> ck = clean_name_of f"
  shows "map_of d f = Some v \<longleftrightarrow> (\<exists>ck. map_of items ck = Some v \<and> map_of nm ck = Some f)"
proof -
  let ?tr = "concat (map (\<lambda>(ck, v). case map_of nm ck of None \<Rightarrow> [] | Some f \<Rightarrow> [(f, v)]) items)"
  have mem: "(g, w) \<in> set ?tr \<longleftrightarrow> (\<exists>ck. (ck, w) \<in> set items \<and> map_of nm ck = Some g)" for g w
    by (force split: option.splits)
  from r have d: "d = fold (\<lambda>p. AList.update (fst p) (snd p)) ?tr []"
    by (auto simp: remap_keys_fold case_prod_unfold)
  have lookup: "map_of d = map_of (rev ?tr)"
    unfolding d by (simp add: map_of_fold_update)
  show ?thesis
  proof
    assume "map_of d f = Some v"
    then have "(f, v) \<in> set ?tr"
      unfolding lookup by (metis map_of_SomeD set_rev)
    then obtain ck where "(ck, v) \<in> set items" and n: "map_of nm ck = Some f"
      unfolding mem by blast
    with dist have "map_of items ck = Some v" by simp
    with n show "\<exists>ck. map_of items ck = Some v \<and> map_of nm ck = Some f" by blast
  next
    assume "\<exists>ck. map_of items ck = Some v \<and> map_of nm ck = Some f"
    then obtain ck where i: "map_of items ck = Some v" and n: "map_of nm ck = Some f" by blast
    from i have "(ck, v) \<in> set items" by (rule map_of_SomeD)
    with n have "(f, v) \<in> set (rev ?tr)" unfolding set_rev mem by blast
    moreover have "v' = v" if "(f, v') \<in> set (rev ?tr)" for v'
    proof -
      from that obtain ck' where i': "(ck', v') \<in> set items" and n': "map_of nm ck' = Some f"
        unfolding set_rev mem by blast
      from n n' inv have "ck' = ck" by metis
      with i' dist have "map_of items ck = Some v'" by simp
      with i show ?thesis by simp
    qed
    ultimately have "map_of (rev ?tr) f = Some v" by (rule map_of_unique)
    then show "map_of d f = Some v" unfolding lookup .
  qed
qed

text \<open>Entries whose key is not in the clean name dictionary make no difference.\<close>

lemma remap_keys_filter:
  "remap_keys nm (filter (\<lambda>(ck, v). dict_contains nm ck) items) acc = remap_keys nm items acc"
proof (induction items arbitrary: acc)
  case Nil
  then show ?case by simp
next
  case (Cons item items)
  obtain ck v where i: "item = (ck, v)" by (cases item)
  show ?case by (simp add: i Cons.IH split: sum.splits)
qed

lemma load_descriptors_Inr:
  assumes "load_descriptors sf af nm col = Inr (shape, arr)"
  obtains sc ac sd ad where
    "json_load LEAF_SHAPE_MAPPING_FILE sf = Inr sc"
    "json_load LEAF_ARR_MAPPING_FILE af = Inr ac"
    "remap_keys nm sc [] = Inr sd"
    "remap_keys nm ac [] = Inr ad"
    "shape = series_map sd col"
    "arr = series_map ad col"
  using assms unfolding load_descriptors_def
  by (auto split: sum.splits)

lemma load_descriptors_Inl:
  assumes "load_descriptors sf af nm col = Inl e"
  shows "(sf = Missing \<and> e = FileNotFoundError LEAF_SHAPE_MAPPING_FILE) \<or>
         (sf = Malformed \<and> e = JSONDecodeError) \<or>
         ((\<exists>ms. sf = JsonObject ms) \<and> af = Missing \<and> e = FileNotFoundError LEAF_ARR_MAPPING_FILE) \<or>
         ((\<exists>ms. sf = JsonObject ms) \<and> af = Malformed \<and> e = JSONDecodeError)"
  using assms unfolding load_descriptors_def json_load_def
  by (cases sf; cases af) (simp_all add: remap_keys_fold)

section \<open>How a run ends\<close>

lemma run_Aborted:
  assumes "load_and_map_data inp = Aborted msg"
  shows "(leaf_shape_file inp = Missing \<and>
            msg = descriptor_not_found_message LEAF_SHAPE_MAPPING_FILE) \<or>
         (leaf_arr_file inp = Missing \<and>
            msg = descriptor_not_found_message LEAF_ARR_MAPPING_FILE)"
proof -
  from assms obtain nm col e where
    l: "load_descriptors (leaf_shape_file inp) (leaf_arr_file inp) nm col = Inl e" and
    e: "(\<exists>filename. e = FileNotFoundError filename \<and> msg = descriptor_not_found_message filename)
        \<or> (\<exists>k. e = KeyError k)"
    unfolding load_and_map_data_def Let_def
    by (auto split: option.splits sum.splits prod.splits py_error.splits)
  from load_descriptors_Inl [OF l] e show ?thesis by auto
qed

lemma example_abort:
  "load_and_map_data (example_input\<lparr>leaf_shape_file := Missing\<rparr>) =
     Aborted (descriptor_not_found_message LEAF_SHAPE_MAPPING_FILE)"
  by (simp add: load_and_map_data_def example_input_def example_species load_descriptors_def
      json_load_def del: species_loop.simps)

lemma example_input_files:
  "species_list_file example_input =
     Some [''105951;Acer rubrum L.\<newline>'', ''\<newline>'', ''3;Quercus alba L.'']"
  "train_list_file example_input =
     Some [(''images/herbarium/a.jpg'', 105951), (''images/photo/b.jpg'', 3),
           (''images/photo/c.jpg'', 9)]"
  "leaf_shape_file example_input =
     JsonObject [(''Quercus alba'', ''lobed''), (''Acer rubrum'', ''palmate''),
                 (''Rosa canina'', ''pinnate'')]"
  "leaf_arr_file example_input = JsonObject [(''Acer rubrum'', ''opposite'')]"
  "os_platform example_input = Windows"
  by (simp_all add: example_input_def)

text \<open>A run that writes its table, column by column.\<close>

lemma run_Saved_columns [consumes 1, case_names columns]:
  assumes "load_and_map_data inp = Saved df"
  obtains lines cm nm records sc ac sd ad where
    "species_list_file inp = Some lines"
    "species_loop lines ([], []) = Inr (cm, nm)"
    "train_list_file inp = Some records"
    "json_load LEAF_SHAPE_MAPPING_FILE (leaf_shape_file inp) = Inr sc"
    "json_load LEAF_ARR_MAPPING_FILE (leaf_arr_file inp) = Inr ac"
    "remap_keys nm sc [] = Inr sd"
    "remap_keys nm ac [] = Inr ad"
    "filepath df = map (\<lambda>r. str_replace_slash (os_sep (os_platform inp)) (fst r)) records"
    "classid df = map snd records"
    "species_name df = map (\<lambda>r. map_of cm (snd r)) records"
    "domain df = map domain_of (filepath df)"
    "leaf_shape df =
       map (\<lambda>name. case name of None \<Rightarrow> None | Some n \<Rightarrow> map_of sd n) (species_name df)"
    "leaf_arrangement df =
       map (\<lambda>name. case name of None \<Rightarrow> None | Some n \<Rightarrow> map_of ad n) (species_name df)"
    "species_label df = cat_codes (species_name df)"
    "leaf_shape_label df = cat_codes (leaf_shape df)"
    "leaf_arrangement_label df = cat_codes (leaf_arrangement df)"
proof -
  from assms obtain lines cm nm records shape arr where
    s: "species_list_file inp = Some lines" "species_loop lines ([], []) = Inr (cm, nm)"
       "train_list_file inp = Some records" and
    l: "load_descriptors (leaf_shape_file inp) (leaf_arr_file inp) nm
          (series_map cm (map Some (map snd records))) = Inr (shape, arr)" and
    df: "df = \<lparr> filepath = map (str_replace_slash (os_sep (os_platform inp))) (map fst records),
            classid = map snd records,
            species_name = series_map cm (map Some (map snd records)),
            domain = map domain_of (map (str_replace_slash (os_sep (os_platform inp))) (map fst records)),
            leaf_shape = shape,
            leaf_arrangement = arr,
            species_label = cat_codes (series_map cm (map Some (map snd records))),
            leaf_shape_label = cat_codes shape,
            leaf_arrangement_label = cat_codes arr \<rparr>"
    by (rule run_Saved)
  from l obtain sc ac sd ad where
    j: "json_load LEAF_SHAPE_MAPPING_FILE (leaf_shape_file inp) = Inr sc"
       "json_load LEAF_ARR_MAPPING_FILE (leaf_arr_file inp) = Inr ac"
       "remap_keys nm sc [] = Inr sd" "remap_keys nm ac [] = Inr ad" and
    c: "shape = series_map sd (series_map cm (map Some (map snd records)))"
       "arr = series_map ad (series_map cm (map Some (map snd records)))"
    by (rule load_descriptors_Inr)
  show thesis
  proof (rule that [OF s j])
    show "filepath df = map (\<lambda>r. str_replace_slash (os_sep (os_platform inp)) (fst r)) records"
      by (simp add: df comp_def)
    show "classid df = map snd records" by (simp add: df)
    show n: "species_name df = map (\<lambda>r. map_of cm (snd r)) records"
      by (simp add: df series_map_def comp_def)
    show "domain df = map domain_of (filepath df)" by (simp add: df)
    show "leaf_shape df =
       map (\<lambda>name. case name of None \<Rightarrow> None | Some n \<Rightarrow> map_of sd n) (species_name df)"
      by (simp add: df c series_map_def)
    show "leaf_arrangement df =
       map (\<lambda>name. case name of None \<Rightarrow> None | Some n \<Rightarrow> map_of ad n) (species_name df)"
      by (simp add: df c series_map_def)
    show "species_label df = cat_codes (species_name df)" by (simp add: df)
    show "leaf_shape_label df = cat_codes (leaf_shape df)" by (simp add: df)
    show "leaf_arrangement_label df = cat_codes (leaf_arrangement df)" by (simp add: df)
  qed
qed

section \<open>Category codes\<close>

lemma length_cat_codes: "length (cat_codes col) = length col"
  by (simp add: cat_codes_def Let_def)

lemma nth_cat_codes:
  "i < length col \<Longrightarrow>
   cat_codes col ! i =
     (case col ! i of None \<Rightarrow> - 1 | Some v \<Rightarrow> int (position (categories col) v))"
  by (simp add: cat_codes_def Let_def)

lemma non_null_values:
  "concat (map (\<lambda>x. case x of None \<Rightarrow> [] | Some v \<Rightarrow> [v]) col) = List.map_filter (\<lambda>y. y) col"
  by (induction col) (auto simp: List.map_filter_simps split: option.splits)

lemma set_categories: "set (categories col) = set (List.map_filter (\<lambda>y. y) col)"
  by (simp add: categories_def non_null_values)

lemma sorted_categories: "sorted (categories col)"
  by (simp add: categories_def)

lemma distinct_categories: "distinct (categories col)"
  by (simp add: categories_def)

lemma mem_non_null: "v \<in> set (List.map_filter (\<lambda>y. y) col) \<longleftrightarrow> Some v \<in> set col"
  by (induction col) (auto simp: List.map_filter_simps split: option.splits)

text \<open>In a sorted list without repetitions, the position of a member is the number of
  members below it.\<close>

lemma position_rank:
  fixes xs :: "'a::linorder list"
  assumes "sorted xs" and "distinct xs" and "v \<in> set xs"
  shows "position xs v = card {w \<in> set xs. w < v}"
  using assms
proof (induction xs)
  case Nil
  then show ?case by simp
next
  case (Cons x xs)
  show ?case
  proof (cases "x = v")
    case True
    with Cons.prems have "{w \<in> set (x # xs). w < v} = {}" by auto
    with True show ?thesis by simp
  next
    case False
    with Cons.prems have v: "v \<in> set xs" and lt: "x < v" by auto
    from Cons.prems have "{w \<in> set (x # xs). w < v} = insert x {w \<in> set xs. w < v}"
      using lt by auto
    moreover from Cons.prems have "x \<notin> {w \<in> set xs. w < v}" by simp
    moreover have "finite {w \<in> set xs. w < v}" by simp
    ultimately have "card {w \<in> set (x # xs). w < v} = Suc (card {w \<in> set xs. w < v})"
      by simp
    moreover from Cons.prems v have "position xs v = card {w \<in> set xs. w < v}"
      by (intro Cons.IH) simp_all
    ultimately show ?thesis using False by simp
  qed
qed

lemma cat_codes_lexicographic: "cat_codes col = map (lexicographic_code col) col"
proof (rule nth_equalityI)
  show "length (cat_codes col) = length (map (lexicographic_code col) col)"
    by (simp add: length_cat_codes)
next
  fix i assume "i < length (cat_codes col)"
  then have i: "i < length col" by (simp add: length_cat_codes)
  show "cat_codes col ! i = map (lexicographic_code col) col ! i"
  proof (cases "col ! i")
    case None
    with i show ?thesis by (simp add: nth_cat_codes lexicographic_code_def)
  next
    case (Some v)
    with i have "Some v \<in> set col" by (metis nth_mem)
    then have "v \<in> set (categories col)" by (simp add: set_categories mem_non_null)
    with sorted_categories distinct_categories
    have "position (categories col) v = card {w \<in> set (categories col). w < v}"
      by (rule position_rank)
    with i Some show ?thesis
      by (simp add: nth_cat_codes lexicographic_code_def set_categories)
  qed
qed

text \<open>The code of a value depends on the column through its categories alone.\<close>

lemma lexicographic_code_universe:
  assumes "categories col = categories col'"
  shows "lexicographic_code col x = lexicographic_code col' x"
proof -
  from assms have "set (List.map_filter (\<lambda>y. y) col) = set (List.map_filter (\<lambda>y. y) col')"
    by (metis set_categories)
  then show ?thesis
    unfolding lexicographic_code_def
    by (rule arg_cong [where f = "\<lambda>S. case x of None \<Rightarrow> - 1 | Some v \<Rightarrow> int (card {w \<in> S. w < v})"])
qed

lemma lexicographic_code_mono:
  assumes "Some v \<in> set col" and "Some w \<in> set col"
  shows "lexicographic_code col (Some v) < lexicographic_code col (Some w) \<longleftrightarrow> v < w"
proof -
  let ?S = "set (List.map_filter (\<lambda>y. y) col)"
  let ?below = "\<lambda>u. {z \<in> ?S. z < u}"
  from assms have v: "v \<in> ?S" and w: "w \<in> ?S" by (simp_all add: mem_non_null)
  have lt: "card (?below v) < card (?below w)" if "v < w"
  proof (rule psubset_card_mono)
    show "finite (?below w)" by simp
    from that v show "?below v \<subset> ?below w" by auto
  qed
  have le: "card (?below w) \<le> card (?below v)" if "\<not> v < w"
  proof (rule card_mono)
    show "finite (?below v)" by simp
    from that show "?below w \<subseteq> ?below v" by auto
  qed
  show ?thesis
  proof (cases "v < w")
    case True
    with lt show ?thesis by (simp add: lexicographic_code_def)
  next
    case False
    with le show ?thesis by (simp add: lexicographic_code_def)
  qed
qed

section \<open>The contents of the class id dictionary\<close>

lemma species_loop_Inr_valid:
  assumes "species_loop lines (cm, nm) = Inr r"
  shows "\<forall>l\<in>set lines. nonblank l \<longrightarrow> valid_line l"
proof (rule ccontr)
  assume "\<not> (\<forall>l\<in>set lines. nonblank l \<longrightarrow> valid_line l)"
  then have "\<exists>l\<in>set lines. nonblank l \<and> \<not> valid_line l" by blast
  then have "species_loop lines (cm, nm) = Inl ValueError" by (rule species_loop_invalid)
  with assms show False by simp
qed

lemma species_loop_classids:
  assumes "species_loop lines ([], []) = Inr (cm, nm)"
  shows "map_of cm c = None \<longleftrightarrow> \<not> (\<exists>l\<in>set lines. nonblank l \<and> line_classid l = Some c)"
    and "map_of cm c = Some f \<Longrightarrow>
         \<exists>l\<in>set lines. nonblank l \<and> line_classid l = Some c \<and> line_formal_name l = f"
proof -
  let ?ls = "filter nonblank lines"
  let ?kf = "\<lambda>l. the (line_classid l)"
  have valid: "\<forall>l\<in>set lines. nonblank l \<longrightarrow> valid_line l"
    using assms by (rule species_loop_Inr_valid)
  then have some: "\<And>l. l \<in> set ?ls \<Longrightarrow> line_classid l = Some (?kf l)"
    by (auto simp: valid_line_def)
  from species_loop_valid [OF valid, of "[]" "[]"] assms
  have cm: "cm = fold (\<lambda>l. AList.update (?kf l) (line_formal_name l)) ?ls []"
    by simp
  have keys: "fst ` set cm = ?kf ` set ?ls"
    unfolding cm by (simp add: keys_fold_update)
  have "map_of cm c = None \<longleftrightarrow> c \<notin> ?kf ` set ?ls"
    by (simp add: map_of_eq_None_iff keys)
  also have "\<dots> \<longleftrightarrow> \<not> (\<exists>l\<in>set lines. nonblank l \<and> line_classid l = Some c)"
  proof -
    have "c \<in> ?kf ` set ?ls \<longleftrightarrow> (\<exists>l\<in>set ?ls. line_classid l = Some c)"
    proof
      assume "c \<in> ?kf ` set ?ls"
      then obtain l where "l \<in> set ?ls" "c = ?kf l" by blast
      with some [of l] show "\<exists>l\<in>set ?ls. line_classid l = Some c" by auto
    next
      assume "\<exists>l\<in>set ?ls. line_classid l = Some c"
      then obtain l where "l \<in> set ?ls" "line_classid l = Some c" by blast
      then have "l \<in> set ?ls" "?kf l = c" by simp_all
      then show "c \<in> ?kf ` set ?ls" by blast
    qed
    then show ?thesis by auto
  qed
  finally show "map_of cm c = None \<longleftrightarrow>
      \<not> (\<exists>l\<in>set lines. nonblank l \<and> line_classid l = Some c)" .
  assume "map_of cm c = Some f"
  then have "map_of (rev (map (\<lambda>l. (?kf l, line_formal_name l)) ?ls)) c = Some f"
    unfolding cm by (simp add: map_of_fold_update)
  then have "(c, f) \<in> set (rev (map (\<lambda>l. (?kf l, line_formal_name l)) ?ls))"
    by (rule map_of_SomeD)
  then obtain l where l: "l \<in> set ?ls" "c = ?kf l" "f = line_formal_name l" by auto
  with some [of l] have "line_classid l = Some c" by simp
  with l show "\<exists>l\<in>set lines. nonblank l \<and> line_classid l = Some c \<and> line_formal_name l = f"
    by auto
qed

text \<open>With the four files in place and a species list that parses, the table is written.\<close>

lemma run_succeeds:
  assumes "species_list_file inp = Some lines"
    and "species_loop lines ([], []) = Inr (cm, nm)"
    and "train_list_file inp = Some records"
    and "leaf_shape_file inp = JsonObject ms"
    and "leaf_arr_file inp = JsonObject ma"
  shows "\<exists>df. load_and_map_data inp = Saved df"
  by (simp add: load_and_map_data_def load_descriptors_def json_load_def remap_keys_fold
      Let_def assms del: species_loop.simps)

lemma json_load_keys:
  "json_load filename (JsonObject ms) = Inr d \<Longrightarrow> fst ` set d = fst ` set ms"
proof -
  assume "json_load filename (JsonObject ms) = Inr d"
  then have d: "d = fold (\<lambda>p. AList.update (fst p) (snd p)) ms []"
    by (auto simp: json_load_def case_prod_unfold)
  show ?thesis unfolding d by (simp add: keys_fold_update)
qed

section \<open>Lines that do not parse, and trait entries that do not resolve\<close>

text \<open>
  A class id followed by the separator U+001F: \<open>strip\<close> removes the separator from a line
  that ends in it, \<open>int\<close> does not accept it, and a species list line with it before the
  semicolon raises.
\<close>

lemma int_keeps_separator:
  "str_strip [CHR ''5'', CHR 0x1F] = ''5''"
  "py_int [CHR ''5'', CHR 0x1F] = None"
  "py_int (CHR ''5'' # ''\<newline>'') = Some 5"
  by (simp_all add: py_defs)

lemma separator_line_invalid:
  "nonblank (CHR ''5'' # CHR 0x1F # '';Acer rubrum L.'')"
  "\<not> valid_line (CHR ''5'' # CHR 0x1F # '';Acer rubrum L.'')"
  "parse_line (CHR ''5'' # CHR 0x1F # '';Acer rubrum L.'') = Inl ValueError"
  by (simp_all add: nonblank_def valid_line_def line_classid_def py_defs)

lemma filter_update_key:
  "filter (\<lambda>p. P (fst p)) (AList.update k v d) =
     (if P k then AList.update k v (filter (\<lambda>p. P (fst p)) d) else filter (\<lambda>p. P (fst p)) d)"
  by (induction d) auto

lemma fold_update_filter:
  "fold (\<lambda>p. AList.update (fst p) (snd p)) (filter (\<lambda>p. P (fst p)) ms)
     (filter (\<lambda>p. P (fst p)) d) =
   filter (\<lambda>p. P (fst p)) (fold (\<lambda>p. AList.update (fst p) (snd p)) ms d)"
proof (induction ms arbitrary: d)
  case Nil
  then show ?case by simp
next
  case (Cons m ms)
  show ?case
  proof (cases "P (fst m)")
    case True
    then have "filter (\<lambda>p. P (fst p)) (AList.update (fst m) (snd m) d) =
        AList.update (fst m) (snd m) (filter (\<lambda>p. P (fst p)) d)"
      by (simp add: filter_update_key)
    with True Cons.IH [of "AList.update (fst m) (snd m) d"] show ?thesis by simp
  next
    case False
    then have "filter (\<lambda>p. P (fst p)) (AList.update (fst m) (snd m) d) =
        filter (\<lambda>p. P (fst p)) d"
      by (simp add: filter_update_key)
    with False Cons.IH [of "AList.update (fst m) (snd m) d"] show ?thesis by simp
  qed
qed

text \<open>Deleting the members with an unknown key from a trait file changes nothing.\<close>

lemma json_load_filter:
  "json_load filename (JsonObject (filter (\<lambda>(ck, v). dict_contains nm ck) ms)) =
     Inr (filter (\<lambda>(ck, v). dict_contains nm ck)
            (fold (\<lambda>(k, v) d. AList.update k v d) ms []))"
  using fold_update_filter [of "dict_contains nm" ms "[]"]
  by (simp add: json_load_def case_prod_unfold)

lemma load_descriptors_filter:
  "load_descriptors (JsonObject (filter (\<lambda>(ck, v). dict_contains nm ck) ms))
     (JsonObject (filter (\<lambda>(ck, v). dict_contains nm ck) ma)) nm col =
   load_descriptors (JsonObject ms) (JsonObject ma) nm col"
  unfolding load_descriptors_def json_load_filter
  by (simp add: json_load_def remap_keys_filter cong: sum.case_cong)

lemma run_filter:
  assumes "species_list_file inp = Some lines"
    and "species_loop lines ([], []) = Inr (cm, nm)"
    and "leaf_shape_file inp = JsonObject ms"
    and "leaf_arr_file inp = JsonObject ma"
  shows "load_and_map_data
       (inp\<lparr>leaf_shape_file := JsonObject (filter (\<lambda>(ck, v). dict_contains nm ck) ms),
            leaf_arr_file := JsonObject (filter (\<lambda>(ck, v). dict_contains nm ck) ma)\<rparr>) =
     load_and_map_data inp"
  by (simp add: load_and_map_data_def assms load_descriptors_filter del: species_loop.simps
      split: option.splits)

text \<open>Every entry of a translated dictionary comes from a key that the clean name
  dictionary has.\<close>

lemma remap_keys_origin:
  assumes "remap_keys nm items acc = Inr d" and "map_of d f = Some v"
  shows "map_of acc f = Some v \<or>
     (\<exists>ck. (ck, v) \<in> set items \<and> dict_contains nm ck \<and> map_of nm ck = Some f)"
  using assms
proof (induction items arbitrary: acc)
  case Nil
  then show ?case by simp
next
  case (Cons item items)
  obtain ck w where i: "item = (ck, w)" by (cases item)
  show ?case
  proof (cases "dict_contains nm ck")
    case False
    with Cons.prems have "remap_keys nm items acc = Inr d" by (simp add: i)
    from Cons.IH [OF this Cons.prems(2)] show ?thesis by auto
  next
    case True
    then obtain g where g: "map_of nm ck = Some g"
      by (metis dict_contains_def map_of_eq_None_iff not_Some_eq)
    with True Cons.prems have "remap_keys nm items (AList.update g w acc) = Inr d"
      by (simp add: i dict_getitem_def)
    from Cons.IH [OF this Cons.prems(2)]
    show ?thesis
    proof
      assume "map_of (AList.update g w acc) f = Some v"
      then have "map_of acc f = Some v \<or> (f = g \<and> v = w)"
        by (auto simp: update_conv' split: if_splits)
      with True g show ?thesis by (auto simp: i)
    next
      assume "\<exists>ck. (ck, v) \<in> set items \<and> dict_contains nm ck \<and> map_of nm ck = Some f"
      then show ?thesis by auto
    qed
  qed
qed

section \<open>Properties of the run\<close>

text \<open>
  C1. In the table the run writes, the domain of every row is \<open>herbarium\<close> exactly when
  the text \<open>herbarium\<close> occurs in the row's file path, in the rewritten path of the table
  as well as in the path of the training list, and it is \<open>field\<close> in every other row.
\<close>

theorem domain_herbarium_iff_in_filepath:
  assumes "load_and_map_data inp = Saved df"
    and "train_list_file inp = Some records"
    and "i < length records"
  shows "length (domain df) = length records \<and>
         (domain df ! i = ''herbarium'' \<longleftrightarrow> (\<exists>u v. filepath df ! i = u @ ''herbarium'' @ v)) \<and>
         (domain df ! i = ''herbarium'' \<longleftrightarrow> (\<exists>u v. fst (records ! i) = u @ ''herbarium'' @ v)) \<and>
         (domain df ! i = ''herbarium'' \<or> domain df ! i = ''field'')"
proof -
  from assms(1) obtain lines cm nm records' shape arr where
    r: "train_list_file inp = Some records'" and
    df: "filepath df = map (str_replace_slash (os_sep (os_platform inp))) (map fst records')"
        "domain df = map domain_of (map (str_replace_slash (os_sep (os_platform inp))) (map fst records'))"
    by (rule run_Saved) simp
  from r assms(2) have eq: "records' = records" by simp
  let ?p = "str_replace_slash (os_sep (os_platform inp)) (fst (records ! i))"
  have d: "domain df ! i = domain_of ?p" and f: "filepath df ! i = ?p"
    using assms(3) by (simp_all add: df eq)
  have len: "length (domain df) = length records"
    by (simp add: df eq)
  have a: "domain df ! i = ''herbarium'' \<longleftrightarrow> (\<exists>u v. ?p = u @ ''herbarium'' @ v)"
    unfolding d by (rule domain_of_iff)
  have b: "domain df ! i = ''herbarium'' \<longleftrightarrow> (\<exists>u v. fst (records ! i) = u @ ''herbarium'' @ v)"
    unfolding a by (rule herbarium_after_replace)
  have c: "domain df ! i = ''herbarium'' \<or> domain df ! i = ''field''"
    unfolding d using domain_of_cases by blast
  from a have a': "domain df ! i = ''herbarium'' \<longleftrightarrow>
      (\<exists>u v. filepath df ! i = u @ ''herbarium'' @ v)"
    unfolding f .
  from len a' b c show ?thesis by blast
qed

theorem domain_herbarium_iff_in_filepath_witness:
  "load_and_map_data example_input = Saved example_output \<and>
   train_list_file example_input =
     Some [(''images/herbarium/a.jpg'', 105951), (''images/photo/b.jpg'', 3),
           (''images/photo/c.jpg'', 9)] \<and>
   domain example_output ! 0 = ''herbarium'' \<and>
   (\<exists>u v. ''images/herbarium/a.jpg'' = u @ ''herbarium'' @ v) \<and>
   domain example_output ! 1 = ''field'' \<and>
   \<not> (\<exists>u v. ''images/photo/b.jpg'' = u @ ''herbarium'' @ v)"
proof -
  have t: "train_list_file example_input =
     Some [(''images/herbarium/a.jpg'', 105951), (''images/photo/b.jpg'', 3),
           (''images/photo/c.jpg'', 9)]"
    by (simp add: example_input_def)
  have d: "domain example_output ! 0 = ''herbarium''" "domain example_output ! 1 = ''field''"
    by (simp_all add: example_output_def)
  from domain_herbarium_iff_in_filepath [OF example_run t, of 0]
       domain_herbarium_iff_in_filepath [OF example_run t, of 1]
  show ?thesis using example_run t d by simp
qed

text \<open>
  C2, as the species list is parsed. When every non-blank line is valid the loop ends
  normally; the class id dictionary then has one entry per distinct class id and the clean
  name dictionary one entry per distinct clean name of the non-blank lines. Each has one
  entry per non-blank line exactly when no two non-blank lines share the key.
\<close>

theorem species_maps_one_entry_per_key:
  assumes "\<forall>l\<in>set lines. nonblank l \<longrightarrow> valid_line l"
  shows "\<exists>cm nm. species_loop lines ([], []) = Inr (cm, nm) \<and>
     length cm = card (line_classid ` set (filter nonblank lines)) \<and>
     length nm = card (line_clean_name ` set (filter nonblank lines)) \<and>
     (length cm = length (filter nonblank lines) \<longleftrightarrow>
        distinct (map line_classid (filter nonblank lines))) \<and>
     (length nm = length (filter nonblank lines) \<longleftrightarrow>
        distinct (map line_clean_name (filter nonblank lines)))"
proof -
  let ?ls = "filter nonblank lines"
  let ?cm = "fold (\<lambda>l. AList.update (the (line_classid l)) (line_formal_name l)) ?ls []"
  let ?nm = "fold (\<lambda>l. AList.update (line_clean_name l) (line_formal_name l)) ?ls []"
  have run: "species_loop lines ([], []) = Inr (?cm, ?nm)"
    using assms by (rule species_loop_valid)
  have some: "\<forall>l\<in>set ?ls. line_classid l \<noteq> None"
    using assms by (auto simp: valid_line_def)
  have inj: "inj_on the (line_classid ` set ?ls)"
  proof (rule inj_onI)
    fix a b
    assume a: "a \<in> line_classid ` set ?ls" and b: "b \<in> line_classid ` set ?ls"
      and eq: "the a = the b"
    from a b some have "a \<noteq> None" "b \<noteq> None" by auto
    with eq show "a = b" by (auto intro: option.expand)
  qed
  have "length ?cm = card ((\<lambda>l. the (line_classid l)) ` set ?ls)"
    by (rule length_fold_update)
  also have "(\<lambda>l. the (line_classid l)) ` set ?ls = the ` line_classid ` set ?ls"
    by (simp add: image_image)
  also have "card \<dots> = card (line_classid ` set ?ls)"
    using inj by (rule card_image)
  finally have cm: "length ?cm = card (line_classid ` set ?ls)" .
  have nm: "length ?nm = card (line_clean_name ` set ?ls)"
    by (rule length_fold_update)
  have dc: "card (f ` set ?ls) = length ?ls \<longleftrightarrow> distinct (map f ?ls)" for f :: "string \<Rightarrow> 'b"
    by (metis card_distinct distinct_card length_map set_map)
  from run cm nm dc [of line_classid] dc [of line_clean_name] show ?thesis
    by simp
qed

theorem species_maps_one_entry_per_key_witness:
  "valid_line ''105951;Acer rubrum L.\<newline>'' \<and> \<not> nonblank ''\<newline>'' \<and>
   valid_line ''3;Quercus alba L.'' \<and>
   (\<exists>cm nm. species_loop [''105951;Acer rubrum L.\<newline>'', ''\<newline>'', ''3;Quercus alba L.'']
        ([], []) = Inr (cm, nm) \<and> length cm = 2 \<and> length nm = 2)"
proof -
  let ?lines = "[''105951;Acer rubrum L.\<newline>'', ''\<newline>'', ''3;Quercus alba L.'']"
  have v: "\<forall>l\<in>set ?lines. nonblank l \<longrightarrow> valid_line l"
    by (simp add: nonblank_def valid_line_def line_classid_def py_defs)
  have f: "filter nonblank ?lines = [''105951;Acer rubrum L.\<newline>'', ''3;Quercus alba L.'']"
    by (simp add: nonblank_def str_strip_def isspace_def)
  have d: "distinct (map line_classid (filter nonblank ?lines))"
    "distinct (map line_clean_name (filter nonblank ?lines))"
    unfolding f by (simp_all add: line_classid_def line_clean_name_def line_formal_name_def py_defs)
  from species_maps_one_entry_per_key [OF v] obtain cm nm where
    r: "species_loop ?lines ([], []) = Inr (cm, nm)" and
    c: "length cm = length (filter nonblank ?lines) \<longleftrightarrow>
        distinct (map line_classid (filter nonblank ?lines))" and
    n: "length nm = length (filter nonblank ?lines) \<longleftrightarrow>
        distinct (map line_clean_name (filter nonblank ?lines))"
    by blast
  from c d(1) have "length cm = length (filter nonblank ?lines)" by blast
  then have lc: "length cm = 2" unfolding f by simp
  from n d(2) have "length nm = length (filter nonblank ?lines)" by blast
  then have ln: "length nm = 2" unfolding f by simp
  have v': "valid_line ''105951;Acer rubrum L.\<newline>''" "\<not> nonblank ''\<newline>''"
    "valid_line ''3;Quercus alba L.''"
    by (simp_all add: nonblank_def valid_line_def line_classid_def py_defs)
  from v' r lc ln show ?thesis by blast
qed

text \<open>
  Two valid lines with the same genus and species have one clean name: the clean name
  dictionary gets one entry for the two lines. Two valid lines with the same class id
  leave one entry in the class id dictionary, with the name of the second line.
\<close>

theorem species_maps_one_entry_per_line_counterexample:
  "valid_line ''1;Acer rubrum L.'' \<and> valid_line ''2;Acer rubrum Marsh.'' \<and>
   valid_line ''1;Quercus alba L.'' \<and>
   length (filter nonblank [''1;Acer rubrum L.'', ''2;Acer rubrum Marsh.'']) = 2 \<and>
   species_loop [''1;Acer rubrum L.'', ''2;Acer rubrum Marsh.''] ([], []) =
     Inr ([(1, ''Acer rubrum L.''), (2, ''Acer rubrum Marsh.'')],
          [(''Acer rubrum'', ''Acer rubrum Marsh.'')]) \<and>
   length [(''Acer rubrum'', ''Acer rubrum Marsh.'')] \<noteq>
     length (filter nonblank [''1;Acer rubrum L.'', ''2;Acer rubrum Marsh.'']) \<and>
   length (filter nonblank [''1;Acer rubrum L.'', ''1;Quercus alba L.'']) = 2 \<and>
   species_loop [''1;Acer rubrum L.'', ''1;Quercus alba L.''] ([], []) =
     Inr ([(1, ''Quercus alba L.'')],
          [(''Acer rubrum'', ''Acer rubrum L.''), (''Quercus alba'', ''Quercus alba L.'')]) \<and>
   length [(1 :: int, ''Quercus alba L.'')] \<noteq>
     length (filter nonblank [''1;Acer rubrum L.'', ''1;Quercus alba L.''])"
proof -
  have v: "valid_line ''1;Acer rubrum L.''" "valid_line ''2;Acer rubrum Marsh.''"
    "valid_line ''1;Quercus alba L.''"
    by (simp_all add: valid_line_def line_classid_def py_defs)
  have n: "str_strip ''1;Acer rubrum L.'' \<noteq> []" "str_strip ''2;Acer rubrum Marsh.'' \<noteq> []"
    "str_strip ''1;Quercus alba L.'' \<noteq> []"
    by (simp_all add: str_strip_def isspace_def)
  have p: "parse_line ''1;Acer rubrum L.'' = Inr (1, ''Acer rubrum'', ''Acer rubrum L.'')"
    "parse_line ''2;Acer rubrum Marsh.'' = Inr (2, ''Acer rubrum'', ''Acer rubrum Marsh.'')"
    "parse_line ''1;Quercus alba L.'' = Inr (1, ''Quercus alba'', ''Quercus alba L.'')"
    by (simp_all add: py_defs)
  have s: "species_loop [''1;Acer rubrum L.'', ''2;Acer rubrum Marsh.''] ([], []) =
     Inr ([(1, ''Acer rubrum L.''), (2, ''Acer rubrum Marsh.'')],
          [(''Acer rubrum'', ''Acer rubrum Marsh.'')])"
    by (simp add: n p)
  have t: "species_loop [''1;Acer rubrum L.'', ''1;Quercus alba L.''] ([], []) =
     Inr ([(1, ''Quercus alba L.'')],
          [(''Acer rubrum'', ''Acer rubrum L.''), (''Quercus alba'', ''Quercus alba L.'')])"
    by (simp add: n p)
  from v n s t show ?thesis by (simp add: nonblank_def)
qed

text \<open>
  C3, as the code handles a trait key that is not in the clean name dictionary. The
  comprehension tests the key before it looks it up, so nothing is raised: the entry with
  the unknown key is passed over, the translated dictionary is the one that the entries
  with known keys alone give, and every entry of it comes from a known key. The run goes
  on and writes the table that it writes when the entries with unknown keys are deleted
  from the trait files. A run that a handler ends with a message is a run in which a
  trait file is missing, and the message names that file.
\<close>

theorem unresolved_trait_key_is_skipped:
  assumes "species_list_file inp = Some lines"
    and "species_loop lines ([], []) = Inr (cm, nm)"
    and "train_list_file inp = Some records"
    and "leaf_shape_file inp = JsonObject ms"
    and "leaf_arr_file inp = JsonObject ma"
    and "\<not> dict_contains nm ck"
  shows "remap_keys nm ((ck, v) # items) acc = remap_keys nm items acc \<and>
     (\<exists>d. remap_keys nm items acc = Inr d \<and>
        remap_keys nm (filter (\<lambda>(k, w). dict_contains nm k) items) acc = Inr d \<and>
        (\<forall>f w. map_of d f = Some w \<longrightarrow>
           map_of acc f = Some w \<or>
           (\<exists>k. (k, w) \<in> set items \<and> dict_contains nm k \<and> map_of nm k = Some f))) \<and>
     (\<exists>df. load_and_map_data inp = Saved df \<and>
        load_and_map_data
          (inp\<lparr>leaf_shape_file := JsonObject (filter (\<lambda>(k, w). dict_contains nm k) ms),
               leaf_arr_file := JsonObject (filter (\<lambda>(k, w). dict_contains nm k) ma)\<rparr>) =
          Saved df) \<and>
     (load_and_map_data inp' = Aborted msg \<longrightarrow>
        (leaf_shape_file inp' = Missing \<and>
           msg = ''\<newline>ERROR: A descriptor file was not found: species_to_leaf_shape.json'') \<or>
        (leaf_arr_file inp' = Missing \<and>
           msg =
             ''\<newline>ERROR: A descriptor file was not found: species_to_leaf_arrangement.json''))"
proof -
  have skip: "remap_keys nm ((ck, v) # items) acc = remap_keys nm items acc"
    using assms(6) by simp
  obtain d where d: "remap_keys nm items acc = Inr d"
    by (simp add: remap_keys_fold)
  have filtered: "remap_keys nm (filter (\<lambda>(k, w). dict_contains nm k) items) acc = Inr d"
    using d by (simp only: remap_keys_filter)
  have origin: "\<forall>f w. map_of d f = Some w \<longrightarrow>
      map_of acc f = Some w \<or>
      (\<exists>k. (k, w) \<in> set items \<and> dict_contains nm k \<and> map_of nm k = Some f)"
    using remap_keys_origin [OF d] by blast
  from assms(1-5) obtain df where run: "load_and_map_data inp = Saved df"
    using run_succeeds by blast
  have same: "load_and_map_data
      (inp\<lparr>leaf_shape_file := JsonObject (filter (\<lambda>(k, w). dict_contains nm k) ms),
           leaf_arr_file := JsonObject (filter (\<lambda>(k, w). dict_contains nm k) ma)\<rparr>) =
      Saved df"
    using run_filter [OF assms(1,2,4,5)] run by simp
  have abort: "load_and_map_data inp' = Aborted msg \<longrightarrow>
      (leaf_shape_file inp' = Missing \<and>
         msg = ''\<newline>ERROR: A descriptor file was not found: species_to_leaf_shape.json'') \<or>
      (leaf_arr_file inp' = Missing \<and>
         msg =
           ''\<newline>ERROR: A descriptor file was not found: species_to_leaf_arrangement.json'')"
    using run_Aborted [of inp' msg]
    by (simp add: descriptor_not_found_message_def LEAF_SHAPE_MAPPING_FILE_def
        LEAF_ARR_MAPPING_FILE_def)
  from skip d filtered origin run same abort show ?thesis by blast
qed

theorem unresolved_trait_key_is_skipped_witness:
  "species_list_file example_input =
     Some [''105951;Acer rubrum L.\<newline>'', ''\<newline>'', ''3;Quercus alba L.''] \<and>
   species_loop [''105951;Acer rubrum L.\<newline>'', ''\<newline>'', ''3;Quercus alba L.''] ([], []) =
     Inr ([(105951, ''Acer rubrum L.''), (3, ''Quercus alba L.'')],
          [(''Acer rubrum'', ''Acer rubrum L.''), (''Quercus alba'', ''Quercus alba L.'')]) \<and>
   leaf_shape_file example_input =
     JsonObject [(''Quercus alba'', ''lobed''), (''Acer rubrum'', ''palmate''),
                 (''Rosa canina'', ''pinnate'')] \<and>
   \<not> dict_contains
       [(''Acer rubrum'', ''Acer rubrum L.''), (''Quercus alba'', ''Quercus alba L.'')]
       ''Rosa canina'' \<and>
   remap_keys
     [(''Acer rubrum'', ''Acer rubrum L.''), (''Quercus alba'', ''Quercus alba L.'')]
     [(''Quercus alba'', ''lobed''), (''Acer rubrum'', ''palmate''),
      (''Rosa canina'', ''pinnate'')] [] =
     Inr [(''Quercus alba L.'', ''lobed''), (''Acer rubrum L.'', ''palmate'')] \<and>
   remap_keys
     [(''Acer rubrum'', ''Acer rubrum L.''), (''Quercus alba'', ''Quercus alba L.'')]
     [(''Rosa canina'', ''pinnate'')] [] = Inr [] \<and>
   load_and_map_data example_input = Saved example_output \<and>
   load_and_map_data
     (example_input
        \<lparr>leaf_shape_file :=
           JsonObject [(''Quercus alba'', ''lobed''), (''Acer rubrum'', ''palmate'')],
         leaf_arr_file := JsonObject [(''Acer rubrum'', ''opposite'')]\<rparr>) =
     Saved example_output \<and>
   load_and_map_data (example_input\<lparr>leaf_shape_file := Missing\<rparr>) =
     Aborted ''\<newline>ERROR: A descriptor file was not found: species_to_leaf_shape.json''"
proof -
  let ?nm = "[(''Acer rubrum'', ''Acer rubrum L.''), (''Quercus alba'', ''Quercus alba L.'')]"
  let ?ms = "[(''Quercus alba'', ''lobed''), (''Acer rubrum'', ''palmate''),
              (''Rosa canina'', ''pinnate'')]"
  let ?ma = "[(''Acer rubrum'', ''opposite'')]"
  have unknown: "\<not> dict_contains ?nm ''Rosa canina''"
    by (simp add: dict_contains_def)
  have fs: "filter (\<lambda>(k, w). dict_contains ?nm k) ?ms =
      [(''Quercus alba'', ''lobed''), (''Acer rubrum'', ''palmate'')]"
    and fa: "filter (\<lambda>(k, w). dict_contains ?nm k) ?ma = ?ma"
    by (simp_all add: dict_contains_def)
  have shape: "remap_keys ?nm ?ms [] =
      Inr [(''Quercus alba L.'', ''lobed''), (''Acer rubrum L.'', ''palmate'')]"
    by (simp add: dict_contains_def dict_getitem_def)
  note t = unresolved_trait_key_is_skipped
    [OF example_input_files(1) example_species example_input_files(2,3,4) unknown,
     of "''pinnate''" "[]" "[]" "example_input\<lparr>leaf_shape_file := Missing\<rparr>"
        "descriptor_not_found_message LEAF_SHAPE_MAPPING_FILE"]
  from t have skip: "remap_keys ?nm [(''Rosa canina'', ''pinnate'')] [] = Inr []"
    by simp
  from t obtain df where df: "load_and_map_data example_input = Saved df"
    "load_and_map_data
       (example_input
          \<lparr>leaf_shape_file := JsonObject (filter (\<lambda>(k, w). dict_contains ?nm k) ?ms),
           leaf_arr_file := JsonObject (filter (\<lambda>(k, w). dict_contains ?nm k) ?ma)\<rparr>) =
       Saved df"
    by blast
  from df(1) example_run have "df = example_output" by simp
  with df(2) have same: "load_and_map_data
     (example_input
        \<lparr>leaf_shape_file :=
           JsonObject [(''Quercus alba'', ''lobed''), (''Acer rubrum'', ''palmate'')],
         leaf_arr_file := JsonObject [(''Acer rubrum'', ''opposite'')]\<rparr>) =
     Saved example_output"
    unfolding fs fa by simp
  from t example_abort have abort:
    "load_and_map_data (example_input\<lparr>leaf_shape_file := Missing\<rparr>) =
       Aborted ''\<newline>ERROR: A descriptor file was not found: species_to_leaf_shape.json''"
    by (simp add: example_input_def)
  from example_input_files(1,3) example_species unknown shape skip example_run same abort
  show ?thesis by blast
qed

text \<open>
  In the sample run the leaf shape file has the key \<open>Rosa canina\<close>, which is not in the
  clean name dictionary; the run ends with the table written.
\<close>

theorem unresolved_trait_key_aborts_counterexample:
  "species_list_file example_input =
     Some [''105951;Acer rubrum L.\<newline>'', ''\<newline>'', ''3;Quercus alba L.''] \<and>
   species_loop [''105951;Acer rubrum L.\<newline>'', ''\<newline>'', ''3;Quercus alba L.''] ([], []) =
     Inr ([(105951, ''Acer rubrum L.''), (3, ''Quercus alba L.'')],
          [(''Acer rubrum'', ''Acer rubrum L.''), (''Quercus alba'', ''Quercus alba L.'')]) \<and>
   leaf_shape_file example_input =
     JsonObject [(''Quercus alba'', ''lobed''), (''Acer rubrum'', ''palmate''),
                 (''Rosa canina'', ''pinnate'')] \<and>
   \<not> dict_contains
       [(''Acer rubrum'', ''Acer rubrum L.''), (''Quercus alba'', ''Quercus alba L.'')]
       ''Rosa canina'' \<and>
   load_and_map_data example_input = Saved example_output"
  using example_input_files example_species example_run
  by (simp add: dict_contains_def del: species_loop.simps)

text \<open>
  C4. In a run that writes its table, each trait dictionary read from JSON is translated
  into a dictionary keyed by formal names: a formal name has a value exactly when some
  clean name that the clean name dictionary sends to it has that value in the JSON
  dictionary, so an entry whose clean name is not in the clean name dictionary is left
  out without an error. Each trait column is the lookup of the species name of the row in
  the translated dictionary, null where the species name is null or has no entry.
\<close>

theorem trait_remapping_and_left_join:
  assumes "load_and_map_data inp = Saved df"
    and "species_list_file inp = Some lines"
    and "species_loop lines ([], []) = Inr (cm, nm)"
    and "json_load LEAF_SHAPE_MAPPING_FILE (leaf_shape_file inp) = Inr shape_map_clean_keys"
    and "json_load LEAF_ARR_MAPPING_FILE (leaf_arr_file inp) = Inr arr_map_clean_keys"
  shows "\<exists>shape_map_formal_keys arr_map_formal_keys.
     remap_keys nm shape_map_clean_keys [] = Inr shape_map_formal_keys \<and>
     remap_keys nm arr_map_clean_keys [] = Inr arr_map_formal_keys \<and>
     remap_keys nm (filter (\<lambda>(ck, v). dict_contains nm ck) shape_map_clean_keys) [] =
       Inr shape_map_formal_keys \<and>
     remap_keys nm (filter (\<lambda>(ck, v). dict_contains nm ck) arr_map_clean_keys) [] =
       Inr arr_map_formal_keys \<and>
     (\<forall>f v. map_of shape_map_formal_keys f = Some v \<longleftrightarrow>
        (\<exists>ck. map_of shape_map_clean_keys ck = Some v \<and> map_of nm ck = Some f)) \<and>
     (\<forall>f v. map_of arr_map_formal_keys f = Some v \<longleftrightarrow>
        (\<exists>ck. map_of arr_map_clean_keys ck = Some v \<and> map_of nm ck = Some f)) \<and>
     leaf_shape df =
       map (\<lambda>name. case name of None \<Rightarrow> None | Some n \<Rightarrow> map_of shape_map_formal_keys n)
         (species_name df) \<and>
     leaf_arrangement df =
       map (\<lambda>name. case name of None \<Rightarrow> None | Some n \<Rightarrow> map_of arr_map_formal_keys n)
         (species_name df)"
  using assms(1)
proof (cases rule: run_Saved_columns)
  case (columns lines' cm' nm' records sc ac sd ad)
  from columns(1,2) assms(2,3) have eq: "nm' = nm" by simp
  from columns(4,5) assms(4,5) have sc: "sc = shape_map_clean_keys" "ac = arr_map_clean_keys"
    by simp_all
  have inv: "\<forall>ck f. map_of nm ck = Some f \<longrightarrow> ck = clean_name_of f"
    using assms(3) by (rule species_loop_clean_keys) simp
  have ds: "distinct (map fst shape_map_clean_keys)" "distinct (map fst arr_map_clean_keys)"
    using assms(4,5) by (auto dest: json_load_distinct)
  from columns(6,7) have r: "remap_keys nm shape_map_clean_keys [] = Inr sd"
    "remap_keys nm arr_map_clean_keys [] = Inr ad"
    by (simp_all add: eq sc)
  have ls: "\<forall>f v. map_of sd f = Some v \<longleftrightarrow>
        (\<exists>ck. map_of shape_map_clean_keys ck = Some v \<and> map_of nm ck = Some f)"
    using remap_keys_lookup [OF r(1) ds(1) inv] by blast
  have la: "\<forall>f v. map_of ad f = Some v \<longleftrightarrow>
        (\<exists>ck. map_of arr_map_clean_keys ck = Some v \<and> map_of nm ck = Some f)"
    using remap_keys_lookup [OF r(2) ds(2) inv] by blast
  have rf: "remap_keys nm (filter (\<lambda>(ck, v). dict_contains nm ck) shape_map_clean_keys) [] =
       Inr sd"
    "remap_keys nm (filter (\<lambda>(ck, v). dict_contains nm ck) arr_map_clean_keys) [] = Inr ad"
    using r by (simp_all only: remap_keys_filter)
  show ?thesis
  proof (intro exI conjI)
    show "remap_keys nm shape_map_clean_keys [] = Inr sd" by (rule r(1))
    show "remap_keys nm arr_map_clean_keys [] = Inr ad" by (rule r(2))
  qed (rule rf ls la columns(12,13))+
qed

theorem trait_remapping_and_left_join_witness:
  "load_and_map_data example_input = Saved example_output \<and>
   species_list_file example_input =
     Some [''105951;Acer rubrum L.\<newline>'', ''\<newline>'', ''3;Quercus alba L.''] \<and>
   species_loop [''105951;Acer rubrum L.\<newline>'', ''\<newline>'', ''3;Quercus alba L.''] ([], []) =
     Inr ([(105951, ''Acer rubrum L.''), (3, ''Quercus alba L.'')],
          [(''Acer rubrum'', ''Acer rubrum L.''), (''Quercus alba'', ''Quercus alba L.'')]) \<and>
   json_load LEAF_SHAPE_MAPPING_FILE (leaf_shape_file example_input) =
     Inr [(''Quercus alba'', ''lobed''), (''Acer rubrum'', ''palmate''),
          (''Rosa canina'', ''pinnate'')] \<and>
   json_load LEAF_ARR_MAPPING_FILE (leaf_arr_file example_input) =
     Inr [(''Acer rubrum'', ''opposite'')] \<and>
   (\<exists>sd. remap_keys
            [(''Acer rubrum'', ''Acer rubrum L.''), (''Quercus alba'', ''Quercus alba L.'')]
            [(''Quercus alba'', ''lobed''), (''Acer rubrum'', ''palmate''),
             (''Rosa canina'', ''pinnate'')] [] = Inr sd \<and>
         leaf_shape example_output =
           map (\<lambda>name. case name of None \<Rightarrow> None | Some n \<Rightarrow> map_of sd n)
             (species_name example_output))"
proof -
  have js: "json_load LEAF_SHAPE_MAPPING_FILE (leaf_shape_file example_input) =
     Inr [(''Quercus alba'', ''lobed''), (''Acer rubrum'', ''palmate''),
          (''Rosa canina'', ''pinnate'')]"
    by (simp add: example_input_files json_load_def)
  have ja: "json_load LEAF_ARR_MAPPING_FILE (leaf_arr_file example_input) =
     Inr [(''Acer rubrum'', ''opposite'')]"
    by (simp add: example_input_files json_load_def)
  from trait_remapping_and_left_join
    [OF example_run example_input_files(1) example_species js ja]
  have "\<exists>sd. remap_keys
            [(''Acer rubrum'', ''Acer rubrum L.''), (''Quercus alba'', ''Quercus alba L.'')]
            [(''Quercus alba'', ''lobed''), (''Acer rubrum'', ''palmate''),
             (''Rosa canina'', ''pinnate'')] [] = Inr sd \<and>
         leaf_shape example_output =
           map (\<lambda>name. case name of None \<Rightarrow> None | Some n \<Rightarrow> map_of sd n)
             (species_name example_output)"
    by blast
  with example_run example_input_files(1) example_species js ja show ?thesis
    by blast
qed

text \<open>
  C7. The three label columns of a written table are the lexicographic codes of the
  three value columns: the code of a value is the number of distinct non-null values of
  its column that are smaller in the order of strings, and -1 for a null. A second run
  whose value columns have the same categories codes its values with the same function,
  and a run on the same input writes the same label columns.
\<close>

theorem label_codes_lexicographic_and_repeatable:
  assumes "load_and_map_data inp = Saved df"
    and "load_and_map_data inp' = Saved df'"
    and "categories (species_name df') = categories (species_name df)"
    and "categories (leaf_shape df') = categories (leaf_shape df)"
    and "categories (leaf_arrangement df') = categories (leaf_arrangement df)"
  shows "species_label df = map (lexicographic_code (species_name df)) (species_name df) \<and>
     leaf_shape_label df = map (lexicographic_code (leaf_shape df)) (leaf_shape df) \<and>
     leaf_arrangement_label df =
       map (lexicographic_code (leaf_arrangement df)) (leaf_arrangement df) \<and>
     species_label df' = map (lexicographic_code (species_name df)) (species_name df') \<and>
     leaf_shape_label df' = map (lexicographic_code (leaf_shape df)) (leaf_shape df') \<and>
     leaf_arrangement_label df' =
       map (lexicographic_code (leaf_arrangement df)) (leaf_arrangement df') \<and>
     (inp' = inp \<longrightarrow>
        species_label df' = species_label df \<and>
        leaf_shape_label df' = leaf_shape_label df \<and>
        leaf_arrangement_label df' = leaf_arrangement_label df)"
proof -
  have codes: "species_label t = map (lexicographic_code (species_name t)) (species_name t) \<and>
     leaf_shape_label t = map (lexicographic_code (leaf_shape t)) (leaf_shape t) \<and>
     leaf_arrangement_label t =
       map (lexicographic_code (leaf_arrangement t)) (leaf_arrangement t)"
    if "load_and_map_data j = Saved t" for j t
    using that
  proof (cases rule: run_Saved_columns)
    case (columns lines cm nm records sc ac sd ad)
    from columns(14,15,16) show ?thesis
      by (simp only: cat_codes_lexicographic)
  qed
  have same: "map (lexicographic_code col') col' = map (lexicographic_code col) col'"
    if "categories col' = categories col" for col col'
    using lexicographic_code_universe [OF that] by simp
  from codes [OF assms(1)] codes [OF assms(2)] same [OF assms(3)] same [OF assms(4)]
    same [OF assms(5)] assms(1,2)
  show ?thesis by auto
qed

theorem label_codes_lexicographic_and_repeatable_witness:
  "load_and_map_data example_input = Saved example_output \<and>
   categories (species_name example_output) = categories (species_name example_output) \<and>
   species_label example_output =
     map (lexicographic_code (species_name example_output)) (species_name example_output) \<and>
   leaf_shape_label example_output =
     map (lexicographic_code (leaf_shape example_output)) (leaf_shape example_output) \<and>
   leaf_shape_label example_output = [1, 0, - 1]"
proof -
  have l: "leaf_shape_label example_output = [1, 0, - 1]"
    by (simp add: example_output_def)
  from label_codes_lexicographic_and_repeatable [OF example_run example_run refl refl refl]
    example_run l
  show ?thesis by blast
qed

text \<open>
  C9. In a written table, a row whose species name, leaf shape or leaf arrangement is
  null has the label -1 in the matching label column, and a row with a value there has a
  label that is not negative.
\<close>

theorem null_label_is_minus_one:
  assumes "load_and_map_data inp = Saved df"
    and "i < length (species_name df)"
  shows "(species_name df ! i = None \<longrightarrow> species_label df ! i = - 1) \<and>
     (species_name df ! i \<noteq> None \<longrightarrow> 0 \<le> species_label df ! i) \<and>
     (leaf_shape df ! i = None \<longrightarrow> leaf_shape_label df ! i = - 1) \<and>
     (leaf_shape df ! i \<noteq> None \<longrightarrow> 0 \<le> leaf_shape_label df ! i) \<and>
     (leaf_arrangement df ! i = None \<longrightarrow> leaf_arrangement_label df ! i = - 1) \<and>
     (leaf_arrangement df ! i \<noteq> None \<longrightarrow> 0 \<le> leaf_arrangement_label df ! i)"
  using assms(1)
proof (cases rule: run_Saved_columns)
  case (columns lines cm nm records sc ac sd ad)
  have code: "(col ! i = None \<longrightarrow> cat_codes col ! i = - 1) \<and>
      (col ! i \<noteq> None \<longrightarrow> 0 \<le> cat_codes col ! i)"
    if "i < length col" for col
    using that by (auto simp: nth_cat_codes)
  from columns(12,13) assms(2) have
    "i < length (leaf_shape df)" "i < length (leaf_arrangement df)"
    by simp_all
  with assms(2) code [of "species_name df"] code [of "leaf_shape df"]
    code [of "leaf_arrangement df"] columns(14,15,16)
  show ?thesis by simp
qed

theorem null_label_is_minus_one_witness:
  "load_and_map_data example_input = Saved example_output \<and>
   1 < length (species_name example_output) \<and>
   species_name example_output ! 1 \<noteq> None \<and> 0 \<le> species_label example_output ! 1 \<and>
   leaf_arrangement example_output ! 1 = None \<and>
   leaf_arrangement_label example_output ! 1 = - 1"
proof -
  have h: "1 < length (species_name example_output)"
    "species_name example_output ! 1 \<noteq> None" "leaf_arrangement example_output ! 1 = None"
    by (simp_all add: example_output_def)
  from null_label_is_minus_one [OF example_run h(1)] h example_run
  show ?thesis by blast
qed

text \<open>
  C10. In a written table the file path of every row is the path of the training record
  with each slash replaced by the path separator of the platform, the class ids are those
  of the training records, and the domain is derived from the rewritten path.
\<close>

theorem filepath_rewritten_classid_kept:
  assumes "load_and_map_data inp = Saved df"
    and "train_list_file inp = Some records"
  shows "filepath df =
       map (\<lambda>r. concat (map (\<lambda>c. if c = CHR ''/'' then os_sep (os_platform inp) else [c]) (fst r)))
         records \<and>
     classid df = map snd records \<and>
     domain df = map domain_of (filepath df)"
  using assms(1)
proof (cases rule: run_Saved_columns)
  case (columns lines cm nm records' sc ac sd ad)
  from columns(3) assms(2) have "records' = records" by simp
  with columns(8,9,11) show ?thesis
    by (simp add: str_replace_slash_def)
qed

theorem filepath_rewritten_classid_kept_witness:
  "load_and_map_data example_input = Saved example_output \<and>
   train_list_file example_input =
     Some [(''images/herbarium/a.jpg'', 105951), (''images/photo/b.jpg'', 3),
           (''images/photo/c.jpg'', 9)] \<and>
   filepath example_output =
     map (\<lambda>r. concat (map (\<lambda>c. if c = CHR ''/'' then os_sep (os_platform example_input) else [c])
                 (fst r)))
       [(''images/herbarium/a.jpg'', 105951 :: int), (''images/photo/b.jpg'', 3),
        (''images/photo/c.jpg'', 9)] \<and>
   classid example_output = [105951, 3, 9]"
proof -
  have c: "classid example_output = [105951, 3, 9]"
    by (simp add: example_output_def)
  from filepath_rewritten_classid_kept [OF example_run example_input_files(2)]
    example_run example_input_files(2) c
  show ?thesis by blast
qed

text \<open>
  C5. With a species list that parses, a training list and two trait files that are
  JSON objects, the run writes its table whatever the class ids of the training records
  are. The table has a row for every training record, and the species name of a row is
  what the class id dictionary holds for the class id of the record: the formal name of a
  line with that class id when the species list has one, and null when it has none.
\<close>

theorem species_name_by_classid:
  assumes "species_list_file inp = Some lines"
    and "species_loop lines ([], []) = Inr (cm, nm)"
    and "train_list_file inp = Some records"
    and "leaf_shape_file inp = JsonObject ms"
    and "leaf_arr_file inp = JsonObject ma"
  shows "\<exists>df. load_and_map_data inp = Saved df \<and>
     length (species_name df) = length records \<and>
     classid df = map snd records \<and>
     (\<forall>i<length records.
        species_name df ! i = map_of cm (snd (records ! i)) \<and>
        (species_name df ! i = None \<longleftrightarrow>
           \<not> (\<exists>l\<in>set lines. nonblank l \<and> line_classid l = Some (snd (records ! i)))) \<and>
        (\<forall>f. species_name df ! i = Some f \<longrightarrow>
           (\<exists>l\<in>set lines. nonblank l \<and> line_classid l = Some (snd (records ! i)) \<and>
              line_formal_name l = f)))"
proof -
  from assms obtain df where run: "load_and_map_data inp = Saved df"
    using run_succeeds by blast
  from run show ?thesis
  proof (cases rule: run_Saved_columns)
    case (columns lines' cm' nm' records' sc ac sd ad)
    from columns(1,2,3) assms(1,2,3) have eq: "cm' = cm" "records' = records" by simp_all
    have n: "species_name df ! i = map_of cm (snd (records ! i))" if "i < length records" for i
      using that by (simp add: columns(10) eq)
    have "species_name df ! i = map_of cm (snd (records ! i)) \<and>
        (species_name df ! i = None \<longleftrightarrow>
           \<not> (\<exists>l\<in>set lines. nonblank l \<and> line_classid l = Some (snd (records ! i)))) \<and>
        (\<forall>f. species_name df ! i = Some f \<longrightarrow>
           (\<exists>l\<in>set lines. nonblank l \<and> line_classid l = Some (snd (records ! i)) \<and>
              line_formal_name l = f))"
      if "i < length records" for i
      using species_loop_classids [OF assms(2)] n [OF that] by metis
    moreover have "length (species_name df) = length records" "classid df = map snd records"
      by (simp_all add: columns(9,10) eq)
    ultimately show ?thesis using run by blast
  qed
qed

theorem species_name_by_classid_witness:
  "species_list_file example_input =
     Some [''105951;Acer rubrum L.\<newline>'', ''\<newline>'', ''3;Quercus alba L.''] \<and>
   species_loop [''105951;Acer rubrum L.\<newline>'', ''\<newline>'', ''3;Quercus alba L.''] ([], []) =
     Inr ([(105951, ''Acer rubrum L.''), (3, ''Quercus alba L.'')],
          [(''Acer rubrum'', ''Acer rubrum L.''), (''Quercus alba'', ''Quercus alba L.'')]) \<and>
   train_list_file example_input =
     Some [(''images/herbarium/a.jpg'', 105951), (''images/photo/b.jpg'', 3),
           (''images/photo/c.jpg'', 9)] \<and>
   leaf_shape_file example_input =
     JsonObject [(''Quercus alba'', ''lobed''), (''Acer rubrum'', ''palmate''),
                 (''Rosa canina'', ''pinnate'')] \<and>
   leaf_arr_file example_input = JsonObject [(''Acer rubrum'', ''opposite'')] \<and>
   (\<exists>df. load_and_map_data example_input = Saved df \<and> length (species_name df) = 3 \<and>
      species_name df ! 1 = Some ''Quercus alba L.'' \<and> species_name df ! 2 = None)"
proof -
  from species_name_by_classid
    [OF example_input_files(1) example_species example_input_files(2,3,4)]
  obtain df where df: "load_and_map_data example_input = Saved df"
    "length (species_name df) =
       length [(''images/herbarium/a.jpg'', 105951 :: int), (''images/photo/b.jpg'', 3),
               (''images/photo/c.jpg'', 9)]"
    "\<forall>i<length [(''images/herbarium/a.jpg'', 105951 :: int), (''images/photo/b.jpg'', 3),
                  (''images/photo/c.jpg'', 9)].
        species_name df ! i =
          map_of [(105951, ''Acer rubrum L.''), (3, ''Quercus alba L.'')]
            (snd ([(''images/herbarium/a.jpg'', 105951 :: int), (''images/photo/b.jpg'', 3),
                   (''images/photo/c.jpg'', 9)] ! i))"
    by blast
  from df(2) have "length (species_name df) = 3" by simp
  moreover from df(3) have "species_name df ! 1 = Some ''Quercus alba L.''"
    "species_name df ! 2 = None"
    by simp_all
  ultimately show ?thesis
    using df(1) example_input_files example_species by blast
qed

text \<open>
  C6. A written table has one row for every training record: each of its nine columns is
  as long as the training list, and the class ids are those of the records in their order.
  A row whose species has no entry in a trait file, or has no species name, has null in
  the column of that trait.
\<close>

theorem rows_preserved_missing_trait_null:
  assumes "load_and_map_data inp = Saved df"
    and "train_list_file inp = Some records"
    and "leaf_shape_file inp = JsonObject ms"
    and "leaf_arr_file inp = JsonObject ma"
    and "i < length records"
  shows "length (filepath df) = length records \<and> length (classid df) = length records \<and>
     length (species_name df) = length records \<and> length (domain df) = length records \<and>
     length (leaf_shape df) = length records \<and> length (leaf_arrangement df) = length records \<and>
     length (species_label df) = length records \<and>
     length (leaf_shape_label df) = length records \<and>
     length (leaf_arrangement_label df) = length records \<and>
     classid df ! i = snd (records ! i) \<and>
     (species_name df ! i = None \<longrightarrow>
        leaf_shape df ! i = None \<and> leaf_arrangement df ! i = None) \<and>
     (\<forall>n. species_name df ! i = Some n \<and> clean_name_of n \<notin> fst ` set ms \<longrightarrow>
        leaf_shape df ! i = None) \<and>
     (\<forall>n. species_name df ! i = Some n \<and> clean_name_of n \<notin> fst ` set ma \<longrightarrow>
        leaf_arrangement df ! i = None)"
  using assms(1)
proof (cases rule: run_Saved_columns)
  case (columns lines cm nm records' sc ac sd ad)
  from columns(3) assms(2) have eq: "records' = records" by simp
  have len: "length (filepath df) = length records" "length (classid df) = length records"
    "length (species_name df) = length records" "length (domain df) = length records"
    "length (leaf_shape df) = length records" "length (leaf_arrangement df) = length records"
    "length (species_label df) = length records"
    "length (leaf_shape_label df) = length records"
    "length (leaf_arrangement_label df) = length records"
    by (simp_all add: columns(8-16) eq length_cat_codes)
  have inv: "\<forall>ck f. map_of nm ck = Some f \<longrightarrow> ck = clean_name_of f"
    using columns(2) by (rule species_loop_clean_keys) simp
  have absent: "map_of d n = None"
    if r: "remap_keys nm c [] = Inr d" and j: "json_load filename (JsonObject m) = Inr c"
      and k: "clean_name_of n \<notin> fst ` set m" for d c m n filename
  proof (rule ccontr)
    assume "map_of d n \<noteq> None"
    then obtain v where "map_of d n = Some v" by blast
    with remap_keys_lookup [OF r json_load_distinct [OF j] inv]
    obtain ck where ck: "map_of c ck = Some v" "map_of nm ck = Some n" by blast
    from ck(2) inv have "ck = clean_name_of n" by blast
    moreover from ck(1) have "ck \<in> fst ` set c"
      by (metis map_of_eq_None_iff option.distinct(1))
    ultimately show False using k json_load_keys [OF j] by simp
  qed
  from assms(5) len have i: "i < length (species_name df)" by simp
  have shape: "leaf_shape df ! i =
      (case species_name df ! i of None \<Rightarrow> None | Some n \<Rightarrow> map_of sd n)"
    using i by (simp add: columns(12))
  have arr: "leaf_arrangement df ! i =
      (case species_name df ! i of None \<Rightarrow> None | Some n \<Rightarrow> map_of ad n)"
    using i by (simp add: columns(13))
  have c: "classid df ! i = snd (records ! i)"
    using assms(5) by (simp add: columns(9) eq)
  have s: "\<forall>n. species_name df ! i = Some n \<and> clean_name_of n \<notin> fst ` set ms \<longrightarrow>
        leaf_shape df ! i = None"
    using absent [OF columns(6) columns(4) [unfolded assms(3)]] by (simp add: shape)
  have a: "\<forall>n. species_name df ! i = Some n \<and> clean_name_of n \<notin> fst ` set ma \<longrightarrow>
        leaf_arrangement df ! i = None"
    using absent [OF columns(7) columns(5) [unfolded assms(4)]] by (simp add: arr)
  have z: "species_name df ! i = None \<longrightarrow>
        leaf_shape df ! i = None \<and> leaf_arrangement df ! i = None"
    by (simp add: shape arr)
  from len c z s a show ?thesis by blast
qed

theorem rows_preserved_missing_trait_null_witness:
  "load_and_map_data example_input = Saved example_output \<and>
   train_list_file example_input =
     Some [(''images/herbarium/a.jpg'', 105951), (''images/photo/b.jpg'', 3),
           (''images/photo/c.jpg'', 9)] \<and>
   leaf_shape_file example_input =
     JsonObject [(''Quercus alba'', ''lobed''), (''Acer rubrum'', ''palmate''),
                 (''Rosa canina'', ''pinnate'')] \<and>
   leaf_arr_file example_input = JsonObject [(''Acer rubrum'', ''opposite'')] \<and>
   species_name example_output ! 1 = Some ''Quercus alba L.'' \<and>
   clean_name_of ''Quercus alba L.'' \<notin> fst ` set [(''Acer rubrum'', ''opposite'')] \<and>
   length (leaf_arrangement example_output) = 3 \<and>
   leaf_arrangement example_output ! 1 = None"
proof -
  let ?records = "[(''images/herbarium/a.jpg'', 105951 :: int), (''images/photo/b.jpg'', 3),
           (''images/photo/c.jpg'', 9)]"
  have i: "1 < length ?records" by simp
  have n: "species_name example_output ! 1 = Some ''Quercus alba L.''"
    by (simp add: example_output_def)
  have k: "clean_name_of ''Quercus alba L.'' \<notin> fst ` set [(''Acer rubrum'', ''opposite'')]"
    by (simp add: py_defs)
  from rows_preserved_missing_trait_null
    [OF example_run example_input_files(2,3,4) i]
  have "length (leaf_arrangement example_output) = length ?records"
    and "\<forall>n. species_name example_output ! 1 = Some n \<and>
           clean_name_of n \<notin> fst ` set [(''Acer rubrum'', ''opposite'')] \<longrightarrow>
           leaf_arrangement example_output ! 1 = None"
    by blast+
  with n k have "length (leaf_arrangement example_output) = 3"
    "leaf_arrangement example_output ! 1 = None"
    by simp_all
  with example_run example_input_files n k show ?thesis by blast
qed

text \<open>
  C8. A run in which the species list and the training list load and a trait file is
  missing is ended by the handler: the message that names that file is printed and
  nothing is written. A missing species list, a non-blank species list line that is not
  valid, and a missing training list each end the run with an exception that no handler
  catches, and nothing is written either.
\<close>

theorem missing_trait_file_aborts_other_errors_propagate:
  "(species_list_file inp = None \<longrightarrow>
      load_and_map_data inp =
        Raised (FileNotFoundError (''list'' @ os_sep (os_platform inp) @ ''species_list.txt''))) \<and>
   (species_list_file inp = Some lines \<and> (\<exists>l\<in>set lines. nonblank l \<and> \<not> valid_line l) \<longrightarrow>
      load_and_map_data inp = Raised ValueError) \<and>
   (species_list_file inp = Some lines \<and> (\<forall>l\<in>set lines. nonblank l \<longrightarrow> valid_line l) \<and>
    train_list_file inp = None \<longrightarrow>
      load_and_map_data inp =
        Raised (FileNotFoundError (''list'' @ os_sep (os_platform inp) @ ''train.txt''))) \<and>
   (species_list_file inp = Some lines \<and> (\<forall>l\<in>set lines. nonblank l \<longrightarrow> valid_line l) \<and>
    train_list_file inp = Some records \<and> leaf_shape_file inp = Missing \<longrightarrow>
      load_and_map_data inp =
        Aborted
          ''\<newline>ERROR: A descriptor file was not found: species_to_leaf_shape.json'') \<and>
   (species_list_file inp = Some lines \<and> (\<forall>l\<in>set lines. nonblank l \<longrightarrow> valid_line l) \<and>
    train_list_file inp = Some records \<and> leaf_shape_file inp = JsonObject ms \<and>
    leaf_arr_file inp = Missing \<longrightarrow>
      load_and_map_data inp =
        Aborted
          ''\<newline>ERROR: A descriptor file was not found: species_to_leaf_arrangement.json'')"
proof -
  have a: "load_and_map_data inp =
        Raised (FileNotFoundError (''list'' @ os_sep (os_platform inp) @ ''species_list.txt''))"
    if "species_list_file inp = None"
    using that by (simp add: load_and_map_data_def SPECIES_LIST_FILE_def os_path_join_def)
  have b: "load_and_map_data inp = Raised ValueError"
    if "species_list_file inp = Some lines" "\<exists>l\<in>set lines. nonblank l \<and> \<not> valid_line l"
    using that(1) species_loop_invalid [OF that(2), of "[]" "[]"]
    by (simp add: load_and_map_data_def del: species_loop.simps)
  have ok: "\<exists>m. species_loop lines ([], []) = Inr m"
    if "\<forall>l\<in>set lines. nonblank l \<longrightarrow> valid_line l"
    using species_loop_valid [OF that, of "[]" "[]"] by simp
  have c: "load_and_map_data inp =
        Raised (FileNotFoundError (''list'' @ os_sep (os_platform inp) @ ''train.txt''))"
    if "species_list_file inp = Some lines" "\<forall>l\<in>set lines. nonblank l \<longrightarrow> valid_line l"
      "train_list_file inp = None"
    using that(1,3) ok [OF that(2)]
    by (auto simp: load_and_map_data_def TRAIN_LIST_FILE_def os_path_join_def
        simp del: species_loop.simps)
  have d: "load_and_map_data inp =
        Aborted
          ''\<newline>ERROR: A descriptor file was not found: species_to_leaf_shape.json''"
    if "species_list_file inp = Some lines" "\<forall>l\<in>set lines. nonblank l \<longrightarrow> valid_line l"
      "train_list_file inp = Some records" "leaf_shape_file inp = Missing"
    using that(1,3,4) ok [OF that(2)]
    by (auto simp: load_and_map_data_def load_descriptors_def json_load_def Let_def
        descriptor_not_found_message_def LEAF_SHAPE_MAPPING_FILE_def
        LEAF_ARR_MAPPING_FILE_def simp del: species_loop.simps)
  have e: "load_and_map_data inp =
        Aborted
          ''\<newline>ERROR: A descriptor file was not found: species_to_leaf_arrangement.json''"
    if "species_list_file inp = Some lines" "\<forall>l\<in>set lines. nonblank l \<longrightarrow> valid_line l"
      "train_list_file inp = Some records" "leaf_shape_file inp = JsonObject ms"
      "leaf_arr_file inp = Missing"
    using that(1,3,4,5) ok [OF that(2)]
    by (auto simp: load_and_map_data_def load_descriptors_def json_load_def Let_def
        descriptor_not_found_message_def LEAF_SHAPE_MAPPING_FILE_def
        LEAF_ARR_MAPPING_FILE_def simp del: species_loop.simps)
  from a b c d e show ?thesis by blast
qed

theorem missing_trait_file_aborts_other_errors_propagate_witness:
  "load_and_map_data (example_input\<lparr>species_list_file := None\<rparr>) =
     Raised (FileNotFoundError (''list'' @ [CHR 0x5C] @ ''species_list.txt'')) \<and>
   nonblank ''Acer rubrum L.'' \<and> \<not> valid_line ''Acer rubrum L.'' \<and>
   load_and_map_data
     (example_input\<lparr>species_list_file := Some [''3;Quercus alba L.'', ''Acer rubrum L.'']\<rparr>) =
     Raised ValueError \<and>
   nonblank (CHR ''5'' # CHR 0x1F # '';Acer rubrum L.'') \<and>
   \<not> valid_line (CHR ''5'' # CHR 0x1F # '';Acer rubrum L.'') \<and>
   load_and_map_data
     (example_input\<lparr>species_list_file := Some [CHR ''5'' # CHR 0x1F # '';Acer rubrum L.'']\<rparr>) =
     Raised ValueError \<and>
   valid_line ''105951;Acer rubrum L.\<newline>'' \<and> \<not> nonblank ''\<newline>'' \<and>
   valid_line ''3;Quercus alba L.'' \<and>
   load_and_map_data (example_input\<lparr>train_list_file := None\<rparr>) =
     Raised (FileNotFoundError (''list'' @ [CHR 0x5C] @ ''train.txt'')) \<and>
   load_and_map_data (example_input\<lparr>leaf_shape_file := Missing\<rparr>) =
     Aborted
          ''\<newline>ERROR: A descriptor file was not found: species_to_leaf_shape.json'' \<and>
   load_and_map_data (example_input\<lparr>leaf_arr_file := Missing\<rparr>) =
     Aborted
          ''\<newline>ERROR: A descriptor file was not found: species_to_leaf_arrangement.json''"
proof -
  let ?lines = "[''105951;Acer rubrum L.\<newline>'', ''\<newline>'', ''3;Quercus alba L.'']"
  let ?records = "[(''images/herbarium/a.jpg'', 105951 :: int), (''images/photo/b.jpg'', 3),
           (''images/photo/c.jpg'', 9)]"
  let ?ms = "[(''Quercus alba'', ''lobed''), (''Acer rubrum'', ''palmate''),
                 (''Rosa canina'', ''pinnate'')]"
  have v: "\<forall>l\<in>set ?lines. nonblank l \<longrightarrow> valid_line l"
    by (simp add: nonblank_def valid_line_def line_classid_def py_defs)
  have bad: "nonblank ''Acer rubrum L.''" "\<not> valid_line ''Acer rubrum L.''"
    by (simp_all add: nonblank_def valid_line_def str_strip_def isspace_def)
  have 1: "load_and_map_data (example_input\<lparr>species_list_file := None\<rparr>) =
     Raised (FileNotFoundError (''list'' @ [CHR 0x5C] @ ''species_list.txt''))"
    using missing_trait_file_aborts_other_errors_propagate
      [of "example_input\<lparr>species_list_file := None\<rparr>"]
    by (simp add: example_input_def os_sep_def)
  have 2: "load_and_map_data
     (example_input\<lparr>species_list_file := Some [''3;Quercus alba L.'', ''Acer rubrum L.'']\<rparr>) =
     Raised ValueError"
    using missing_trait_file_aborts_other_errors_propagate
      [of "example_input\<lparr>species_list_file := Some [''3;Quercus alba L.'', ''Acer rubrum L.'']\<rparr>"
          "[''3;Quercus alba L.'', ''Acer rubrum L.'']"] bad
    by (simp add: example_input_def os_sep_def)
  have sep: "load_and_map_data
     (example_input\<lparr>species_list_file := Some [CHR ''5'' # CHR 0x1F # '';Acer rubrum L.'']\<rparr>) =
     Raised ValueError"
    using missing_trait_file_aborts_other_errors_propagate
      [of "example_input\<lparr>species_list_file := Some [CHR ''5'' # CHR 0x1F # '';Acer rubrum L.'']\<rparr>"
          "[CHR ''5'' # CHR 0x1F # '';Acer rubrum L.'']"] separator_line_invalid(1,2)
    by (simp add: example_input_def os_sep_def)
  have 3: "load_and_map_data (example_input\<lparr>train_list_file := None\<rparr>) =
     Raised (FileNotFoundError (''list'' @ [CHR 0x5C] @ ''train.txt''))"
    using missing_trait_file_aborts_other_errors_propagate
      [of "example_input\<lparr>train_list_file := None\<rparr>" ?lines] v
    by (simp add: example_input_def os_sep_def)
  have 4: "load_and_map_data (example_input\<lparr>leaf_shape_file := Missing\<rparr>) =
     Aborted
          ''\<newline>ERROR: A descriptor file was not found: species_to_leaf_shape.json''"
    using missing_trait_file_aborts_other_errors_propagate
      [of "example_input\<lparr>leaf_shape_file := Missing\<rparr>" ?lines ?records] v
    by (simp add: example_input_def os_sep_def)
  have 5: "load_and_map_data (example_input\<lparr>leaf_arr_file := Missing\<rparr>) =
     Aborted
          ''\<newline>ERROR: A descriptor file was not found: species_to_leaf_arrangement.json''"
    using missing_trait_file_aborts_other_errors_propagate
      [of "example_input\<lparr>leaf_arr_file := Missing\<rparr>" ?lines ?records ?ms] v
    by (simp add: example_input_def os_sep_def)
  have v': "valid_line ''105951;Acer rubrum L.\<newline>''" "\<not> nonblank ''\<newline>''"
    "valid_line ''3;Quercus alba L.''"
    by (simp_all add: nonblank_def valid_line_def line_classid_def py_defs)
  from 1 2 sep 3 4 5 v' bad separator_line_invalid(1,2) show ?thesis by blast
qed

end
